theory Spec2Isabelle
  imports Main "HOL-Library.Word"
begin

section \<open>The caching geocoding gateway (package main, the forward/reverse variant)\<close>

text \<open>
  The gateway is a Lambda handler that answers forward and reverse place searches from a
  Redis cache and falls back to the Mapbox HTTP API. The Go code keeps three pieces of
  process-wide state (the \<open>corsHeaders\<close> map, the Redis client, the HTTP client) and
  talks to two remote services. The model threads a \<open>world\<close> record through every
  function (what persists from one call to the next) and reads everything a single
  request cannot influence from an \<open>env\<close> record (the clock, the faults of the Redis
  round trips, the behaviour of the upstream server, the configured access token).
  Log lines written through \<open>logger\<close> have no effect on any result and are left out.
  The older single-endpoint handler under netlify/functions/geocoding, which caches JSON
  documents without an expiry, is not modelled.
\<close>

subsection \<open>Go values\<close>

text \<open>A Go call either returns or panics; a panic unwinds through every caller here.\<close>

datatype 'a go = Panic | Return 'a

text \<open>Reading a missing key of a Go \<open>map[string]string\<close> gives the empty string.\<close>

definition lookup :: "(string \<rightharpoonup> string) \<Rightarrow> string \<Rightarrow> string" where
  "lookup m k = (case m k of None \<Rightarrow> [] | Some v \<Rightarrow> v)"

text \<open>\<open>strings.Split(s, sep)\<close> for a separator of one byte, as in \<open>strings.Split(path, "/")\<close>:
  the pieces between the separators, one more piece than there are separators.\<close>

fun strings_Split :: "string \<Rightarrow> char \<Rightarrow> string list" where
  "strings_Split [] sep = [[]]"
| "strings_Split (c # cs) sep =
     (if c = sep then [] # strings_Split cs sep
      else (case strings_Split cs sep of
              [] \<Rightarrow> [[c]]
            | seg # segs \<Rightarrow> (c # seg) # segs))"

text \<open>The verb \<open>%d\<close> of \<open>fmt.Errorf\<close>: a Go \<open>int\<close> in decimal, with a sign when negative.\<close>

definition digit_char :: "nat \<Rightarrow> char" where
  "digit_char d = ''0123456789'' ! d"

function decimal :: "nat \<Rightarrow> string" where
  "decimal n = (if n < 10 then [digit_char n] else decimal (n div 10) @ [digit_char (n mod 10)])"
  by pat_completeness auto
termination
  by (relation "measure id") auto

declare decimal.simps [simp del]

definition fmt_d :: "int \<Rightarrow> string" where
  "fmt_d i = (if i < 0 then CHR ''-'' # decimal (nat (- i)) else decimal (nat i))"

subsection \<open>Requests and responses (github.com/aws/aws-lambda-go/events)\<close>

record APIGatewayProxyRequest =
  HTTPMethod :: string
  Path :: string
  Headers :: "string \<rightharpoonup> string"
  QueryStringParameters :: "string \<rightharpoonup> string"

text \<open>The response's header field is called \<open>Headers\<close> in Go as well; a record field name
  is global in Isabelle, hence \<open>ResponseHeaders\<close>.\<close>

record APIGatewayProxyResponse =
  StatusCode :: int
  Body :: string
  ResponseHeaders :: "string \<rightharpoonup> string"

definition StatusOK :: int where "StatusOK = 200"
definition StatusNotFound :: int where "StatusNotFound = 404"
definition StatusMethodNotAllowed :: int where "StatusMethodNotAllowed = 405"
definition StatusInternalServerError :: int where "StatusInternalServerError = 500"

definition MethodGet :: string where "MethodGet = ''GET''"
definition MethodOptions :: string where "MethodOptions = ''OPTIONS''"

definition localhostOrigin :: string where "localhostOrigin = ''http://localhost:3000''"
definition githubOrigin :: string where "githubOrigin = ''https://tshrestha.github.io''"

subsection \<open>The two remote services\<close>

text \<open>
  Redis, seen through go-redis. \<open>Get(ctx, key).Result()\<close> gives the stored string, the
  error \<open>redis.Nil\<close> for a key that is absent or expired, or the error of a failed round
  trip; \<open>Set(ctx, key, value, ttl).Err()\<close> stores the value with an expiry of \<open>ttl\<close>
  from now, or fails and stores nothing. Durations are Go's \<open>time.Duration\<close>:
  nanoseconds.
\<close>

definition Hour :: int where "Hour = 3600000000000"

record cache_entry =
  payload :: string
  expires_at :: int

datatype redis_cmd = GET string | SET string string int

text \<open>The outbound request built by \<open>search\<close>, and what \<open>httpClient.Do\<close> can give back: a
  transport error, or a response with a status code whose body either reads in full or
  fails to.\<close>

record http_Request =
  Method :: string
  URL :: string
  Header :: "string \<rightharpoonup> string"

datatype http_outcome =
    TransportError string
  | HttpResponse int "string + string"

record env =
  now :: int
  redis_get_fault :: "string option"
  redis_set_fault :: "string option"
  url_parses :: "string \<Rightarrow> bool"
  upstream :: "http_Request \<Rightarrow> http_outcome"
  mapbox_access_token :: string

record world =
  corsHeaders :: "string \<rightharpoonup> string"
  redis_data :: "string \<rightharpoonup> cache_entry"
  redis_log :: "redis_cmd list"
  http_log :: "http_Request list"

text \<open>The package-level initialiser of \<open>corsHeaders\<close>.\<close>

definition init_corsHeaders :: "string \<rightharpoonup> string" where
  "init_corsHeaders =
     [''Access-Control-Allow-Origin'' \<mapsto> ''http://localhost:3000'',
      ''Access-Control-Allow-Headers'' \<mapsto> ''*'',
      ''Access-Control-Allow-Methods'' \<mapsto> ''*'']"

text \<open>What the server holds for a key at the time of the request: nothing once the entry has
  expired.\<close>

definition redis_lookup :: "env \<Rightarrow> world \<Rightarrow> string \<Rightarrow> string option" where
  "redis_lookup e w key =
     (case redis_data w key of
        None \<Rightarrow> None
      | Some ent \<Rightarrow> if now e < expires_at ent then Some (payload ent) else None)"

definition redis_Get :: "env \<Rightarrow> world \<Rightarrow> string \<Rightarrow> (string \<times> string option) \<times> world" where
  "redis_Get e w key =
     (let w' = w\<lparr>redis_log := redis_log w @ [GET key]\<rparr> in
      case redis_get_fault e of
        Some err \<Rightarrow> (([], Some err), w')
      | None \<Rightarrow>
          (case redis_lookup e w key of
             None \<Rightarrow> (([], Some ''redis: nil''), w')
           | Some v \<Rightarrow> ((v, None), w')))"

definition redis_Set :: "env \<Rightarrow> world \<Rightarrow> string \<Rightarrow> string \<Rightarrow> int \<Rightarrow> string option \<times> world" where
  "redis_Set e w key val ttl =
     (let w' = w\<lparr>redis_log := redis_log w @ [SET key val ttl]\<rparr> in
      case redis_set_fault e of
        Some err \<Rightarrow> (Some err, w')
      | None \<Rightarrow>
          (None, w'\<lparr>redis_data :=
                      (redis_data w')(key \<mapsto> \<lparr>payload = val, expires_at = now e + ttl\<rparr>)\<rparr>))"

text \<open>\<open>http.NewRequest\<close> fails when \<open>net/url\<close> rejects the URL (a control character in it,
  for one); which URLs parse is a parameter of the environment.\<close>

definition http_NewRequest :: "env \<Rightarrow> string \<Rightarrow> string \<Rightarrow> http_Request option" where
  "http_NewRequest e method url =
     (if url_parses e url then Some \<lparr>Method = method, URL = url, Header = Map.empty\<rparr> else None)"

definition Header_Set :: "http_Request \<Rightarrow> string \<Rightarrow> string \<Rightarrow> http_Request" where
  "Header_Set r k v = r\<lparr>Header := (Header r)(k \<mapsto> v)\<rparr>"

definition httpClient_Do :: "env \<Rightarrow> world \<Rightarrow> http_Request \<Rightarrow> http_outcome \<times> world" where
  "httpClient_Do e w r = (upstream e r, w\<lparr>http_log := http_log w @ [r]\<rparr>)"

subsection \<open>The gateway\<close>

definition searchURL :: string where
  "searchURL = ''https://api.mapbox.com/search/geocode/v6''"

definition forwardSearchURL :: "env \<Rightarrow> string" where
  "forwardSearchURL e =
     searchURL @ ''/forward?country=us&types=place&access_token='' @ mapbox_access_token e"

definition reverseSearchURL :: "env \<Rightarrow> string" where
  "reverseSearchURL e =
     searchURL @ ''/reverse?country=us&types=place&access_token='' @ mapbox_access_token e"

text \<open>\<open>createResponse\<close> writes the request's origin into the process-wide map when it is one
  of the two known origins, and hands the map out as the response's headers.\<close>

definition createResponse ::
  "world \<Rightarrow> APIGatewayProxyRequest \<Rightarrow> int \<Rightarrow> string \<Rightarrow> APIGatewayProxyResponse \<times> world" where
  "createResponse w req statusCode body =
     (let origin = lookup (Headers req) ''Origin'';
          w' = (if origin = localhostOrigin \<or> origin = githubOrigin
                then w\<lparr>corsHeaders :=
                         (corsHeaders w)(''Access-Control-Allow-Origin'' \<mapsto>
                                           lookup (Headers req) ''Origin'')\<rparr>
                else w)
      in (\<lparr>StatusCode = statusCode, Body = body, ResponseHeaders = corsHeaders w'\<rparr>, w'))"

definition getCached :: "env \<Rightarrow> world \<Rightarrow> string \<Rightarrow> string \<times> world" where
  "getCached e w key =
     (case redis_Get e w key of
        ((cached, err), w') \<Rightarrow> if err \<noteq> None then ([], w') else (cached, w'))"

definition setCache :: "env \<Rightarrow> world \<Rightarrow> string \<Rightarrow> string \<Rightarrow> world" where
  "setCache e w key val = (case redis_Set e w key val (200 * Hour) of (err, w') \<Rightarrow> w')"

text \<open>\<open>search\<close> drops the error of \<open>http.NewRequest\<close>; when there is one the request is nil
  and \<open>req.Header.Set\<close> panics.\<close>

definition search :: "env \<Rightarrow> world \<Rightarrow> string \<Rightarrow> (string + string) go \<times> world" where
  "search e w reqURL =
     (case http_NewRequest e MethodGet reqURL of
        None \<Rightarrow> (Panic, w)
      | Some req0 \<Rightarrow>
          (let req1 = Header_Set req0 ''Origin'' ''https://tshrestha.github.io'';
               req2 = Header_Set req1 ''Referer'' ''https://tshrestha.github.io/nawa''
           in case httpClient_Do e w req2 of
                (TransportError err, w') \<Rightarrow> (Return (Inl err), w')
              | (HttpResponse status body, w') \<Rightarrow>
                  if status = StatusOK then
                    (case body of
                       Inl err \<Rightarrow> (Return (Inl err), w')
                     | Inr bytes \<Rightarrow> (Return (Inr bytes), w'))
                  else (Return (Inl (''received unexpected status code '' @ fmt_d status)), w')))"

text \<open>The body shared by \<open>forwardSearch\<close> and \<open>reverseSearch\<close> is written out twice, as in
  the source.\<close>

definition forwardSearch ::
  "env \<Rightarrow> world \<Rightarrow> APIGatewayProxyRequest \<Rightarrow> string \<Rightarrow> APIGatewayProxyResponse go \<times> world" where
  "forwardSearch e w req query =
     (case getCached e w query of
        (cached, w1) \<Rightarrow>
          if cached = [] then
            (let reqURL = forwardSearchURL e @ ''&q='' @ query in
             case search e w1 reqURL of
               (Panic, w2) \<Rightarrow> (Panic, w2)
             | (Return (Inl err), w2) \<Rightarrow>
                 (case createResponse w2 req StatusInternalServerError err of
                    (r, w3) \<Rightarrow> (Return r, w3))
             | (Return (Inr result), w2) \<Rightarrow>
                 (case createResponse (setCache e w2 query result) req StatusOK result of
                    (r, w3) \<Rightarrow> (Return r, w3)))
          else (case createResponse w1 req StatusOK cached of (r, w2) \<Rightarrow> (Return r, w2)))"

definition reverseSearch ::
  "env \<Rightarrow> world \<Rightarrow> APIGatewayProxyRequest \<Rightarrow> string \<Rightarrow> string \<Rightarrow>
     APIGatewayProxyResponse go \<times> world" where
  "reverseSearch e w req lat lon =
     (let key = lat @ lon in
      case getCached e w key of
        (cached, w1) \<Rightarrow>
          if cached = [] then
            (let reqURL = reverseSearchURL e @ ''&latitude='' @ lat @ ''&longitude='' @ lon in
             case search e w1 reqURL of
               (Panic, w2) \<Rightarrow> (Panic, w2)
             | (Return (Inl err), w2) \<Rightarrow>
                 (case createResponse w2 req StatusInternalServerError err of
                    (r, w3) \<Rightarrow> (Return r, w3))
             | (Return (Inr result), w2) \<Rightarrow>
                 (case createResponse (setCache e w2 key result) req StatusOK result of
                    (r, w3) \<Rightarrow> (Return r, w3)))
          else (case createResponse w1 req StatusOK cached of (r, w2) \<Rightarrow> (Return r, w2)))"

text \<open>The first condition of \<open>handler\<close> is written \<open>a && b || c\<close> in the source; Go reads it
  as \<open>(a && b) || c\<close>. Indexing the last path segment panics on an empty slice.\<close>

definition handler ::
  "env \<Rightarrow> world \<Rightarrow> APIGatewayProxyRequest \<Rightarrow> APIGatewayProxyResponse go \<times> world" where
  "handler e w request =
     (let origin = lookup (Headers request) ''Origin'' in
      if (HTTPMethod request = MethodOptions \<and> origin = localhostOrigin) \<or> origin = githubOrigin
      then (case createResponse w request StatusOK [] of (r, w') \<Rightarrow> (Return r, w'))
      else if HTTPMethod request = MethodGet then
        (let pathSegments = strings_Split (Path request) CHR ''/'' in
         if pathSegments = [] then (Panic, w)
         else
           (let requestType = last pathSegments in
            if requestType = ''forward'' then
              forwardSearch e w request (lookup (QueryStringParameters request) ''q'')
            else if requestType = ''reverse'' then
              reverseSearch e w request (lookup (QueryStringParameters request) ''lat'')
                                        (lookup (QueryStringParameters request) ''lon'')
            else (case createResponse w request StatusNotFound [] of
                    (r, w') \<Rightarrow> (Return r, w'))))
      else (case createResponse w request StatusMethodNotAllowed [] of
              (r, w') \<Rightarrow> (Return r, w')))"

subsection \<open>Vocabulary of the properties\<close>

text \<open>The request that \<open>search\<close> sends for a URL: a GET with the two fixed headers.\<close>

definition outbound :: "string \<Rightarrow> http_Request" where
  "outbound url =
     \<lparr>Method = ''GET'', URL = url,
      Header = [''Origin'' \<mapsto> ''https://tshrestha.github.io'',
                ''Referer'' \<mapsto> ''https://tshrestha.github.io/nawa'']\<rparr>"

text \<open>A call answered with the given status and body (and did not panic).\<close>

fun responded :: "APIGatewayProxyResponse go \<times> world \<Rightarrow> int \<Rightarrow> string \<Rightarrow> bool" where
  "responded (Return r, w) status body = (StatusCode r = status \<and> Body r = body)"
| "responded (Panic, w) status body = False"

text \<open>Answering through \<open>createResponse\<close>, as every return statement of the gateway does.\<close>

abbreviation respond ::
  "world \<Rightarrow> APIGatewayProxyRequest \<Rightarrow> int \<Rightarrow> string \<Rightarrow>
     APIGatewayProxyResponse go \<times> world" where
  "respond w req status body \<equiv>
     (case createResponse w req status body of (r, w') \<Rightarrow> (Return r, w'))"

abbreviation forwardURL :: "env \<Rightarrow> string \<Rightarrow> string" where
  "forwardURL e query \<equiv> forwardSearchURL e @ ''&q='' @ query"

abbreviation reverseURL :: "env \<Rightarrow> string \<Rightarrow> string \<Rightarrow> string" where
  "reverseURL e lat lon \<equiv> reverseSearchURL e @ ''&latitude='' @ lat @ ''&longitude='' @ lon"

text \<open>
  Decimal notation, read back: the value of a digit character by table, the value of a
  string of digits most significant first, and an optional leading minus sign. None of
  this refers to how \<open>fmt_d\<close> produces its output.
\<close>

definition digit_table :: "(char \<times> nat) list" where
  "digit_table =
     [(CHR ''0'', 0), (CHR ''1'', 1), (CHR ''2'', 2), (CHR ''3'', 3), (CHR ''4'', 4),
      (CHR ''5'', 5), (CHR ''6'', 6), (CHR ''7'', 7), (CHR ''8'', 8), (CHR ''9'', 9)]"

definition digit_of :: "char \<Rightarrow> nat option" where
  "digit_of c = map_of digit_table c"

definition is_digit :: "char \<Rightarrow> bool" where
  "is_digit c \<longleftrightarrow> digit_of c \<noteq> None"

fun read_digits :: "nat \<Rightarrow> string \<Rightarrow> nat option" where
  "read_digits acc [] = Some acc"
| "read_digits acc (c # cs) =
     (case digit_of c of None \<Rightarrow> None | Some d \<Rightarrow> read_digits (10 * acc + d) cs)"

definition read_decimal :: "string \<Rightarrow> int option" where
  "read_decimal s =
     (case s of
        [] \<Rightarrow> None
      | c # cs \<Rightarrow>
          if c = CHR ''-'' then
            (if cs = [] then None else map_option (\<lambda>n. - int n) (read_digits 0 cs))
          else map_option int (read_digits 0 s))"

text \<open>The three entries of \<open>corsHeaders\<close> that every reachable state has: the two wildcards,
  and an allow-origin entry holding one of the two known origins.\<close>

definition cors_ok :: "world \<Rightarrow> bool" where
  "cors_ok w \<longleftrightarrow>
     corsHeaders w ''Access-Control-Allow-Headers'' = Some ''*'' \<and>
     corsHeaders w ''Access-Control-Allow-Methods'' = Some ''*'' \<and>
     (corsHeaders w ''Access-Control-Allow-Origin'' = Some localhostOrigin \<or>
      corsHeaders w ''Access-Control-Allow-Origin'' = Some githubOrigin)"

subsection \<open>Concrete environments, states and requests\<close>

definition parses_all :: "string \<Rightarrow> bool" where
  "parses_all u = True"

definition mapbox_ok :: "http_Request \<Rightarrow> http_outcome" where
  "mapbox_ok r = HttpResponse 200 (Inr ''{features}'')"

definition mapbox_blank :: "http_Request \<Rightarrow> http_outcome" where
  "mapbox_blank r = HttpResponse 200 (Inr [])"

definition mapbox_503 :: "http_Request \<Rightarrow> http_outcome" where
  "mapbox_503 r = HttpResponse 503 (Inr ''Service Unavailable'')"

text \<open>The text of the error \<open>httpClient.Do\<close> returns when the host does not resolve: the
  method, the quoted URL and the cause.\<close>

definition no_such_host :: "string \<Rightarrow> string" where
  "no_such_host url =
     ''Get '' @ [CHR 0x22] @ url @ [CHR 0x22] @
     '': dial tcp: lookup api.mapbox.com: no such host''"

definition mapbox_unreachable :: "http_Request \<Rightarrow> http_outcome" where
  "mapbox_unreachable r = TransportError (no_such_host (URL r))"

definition env_ok :: env where
  "env_ok = \<lparr>now = 0, redis_get_fault = None, redis_set_fault = None,
             url_parses = parses_all, upstream = mapbox_ok, mapbox_access_token = ''pk.test''\<rparr>"

definition env_later :: env where
  "env_later = env_ok\<lparr>now := 199 * Hour\<rparr>"

definition env_blank :: env where
  "env_blank = env_ok\<lparr>upstream := mapbox_blank\<rparr>"

definition env_503 :: env where
  "env_503 = env_ok\<lparr>upstream := mapbox_503\<rparr>"

definition env_unreachable :: env where
  "env_unreachable = env_ok\<lparr>upstream := mapbox_unreachable\<rparr>"

definition env_get_down :: env where
  "env_get_down = env_ok\<lparr>redis_get_fault := Some ''dial tcp: connection refused''\<rparr>"

definition env_set_down :: env where
  "env_set_down = env_ok\<lparr>redis_set_fault := Some ''dial tcp: connection refused''\<rparr>"

definition world0 :: world where
  "world0 = \<lparr>corsHeaders = init_corsHeaders, redis_data = Map.empty,
             redis_log = [], http_log = []\<rparr>"

definition world_hit :: world where
  "world_hit = world0\<lparr>redis_data :=
     [''Seattle'' \<mapsto> \<lparr>payload = ''{cached}'', expires_at = 1\<rparr>,
      ''47.6-122.3'' \<mapsto> \<lparr>payload = ''{cached}'', expires_at = 1\<rparr>]\<rparr>"

definition world_blank :: world where
  "world_blank = world0\<lparr>redis_data :=
     [''Seattle'' \<mapsto> \<lparr>payload = [], expires_at = 1\<rparr>,
      ''47.6-122.3'' \<mapsto> \<lparr>payload = [], expires_at = 1\<rparr>]\<rparr>"

definition req_forward :: APIGatewayProxyRequest where
  "req_forward = \<lparr>HTTPMethod = ''GET'', Path = ''/x/forward'',
                  Headers = [''Origin'' \<mapsto> ''http://localhost:3000''],
                  QueryStringParameters = [''q'' \<mapsto> ''Seattle'']\<rparr>"

definition req_reverse :: APIGatewayProxyRequest where
  "req_reverse = \<lparr>HTTPMethod = ''GET'', Path = ''/x/reverse'',
                  Headers = [''Origin'' \<mapsto> ''http://localhost:3000''],
                  QueryStringParameters = [''lat'' \<mapsto> ''47.6'', ''lon'' \<mapsto> ''-122.3'']\<rparr>"

definition req_unlisted :: APIGatewayProxyRequest where
  "req_unlisted = \<lparr>HTTPMethod = ''GET'', Path = ''/x/forward'',
                   Headers = [''Origin'' \<mapsto> ''https://example.com''],
                   QueryStringParameters = [''q'' \<mapsto> ''Seattle'']\<rparr>"

definition req_forward_github :: APIGatewayProxyRequest where
  "req_forward_github = \<lparr>HTTPMethod = ''GET'', Path = ''/x/forward'',
                         Headers = [''Origin'' \<mapsto> ''https://tshrestha.github.io''],
                         QueryStringParameters = [''q'' \<mapsto> ''Seattle'']\<rparr>"

definition req_unknown_github :: APIGatewayProxyRequest where
  "req_unknown_github = \<lparr>HTTPMethod = ''GET'', Path = ''/x/unknown'',
                         Headers = [''Origin'' \<mapsto> ''https://tshrestha.github.io''],
                         QueryStringParameters = Map.empty\<rparr>"

definition req_post_github :: APIGatewayProxyRequest where
  "req_post_github = \<lparr>HTTPMethod = ''POST'', Path = ''/x/forward'',
                      Headers = [''Origin'' \<mapsto> ''https://tshrestha.github.io''],
                      QueryStringParameters = [''q'' \<mapsto> ''Seattle'']\<rparr>"

text \<open>The state a fresh process is left in by one forward search whose upstream answers 200
  with an empty body.\<close>

definition world_after_blank :: world where
  "world_after_blank = snd (forwardSearch env_blank world0 req_forward ''Seattle'')"

section \<open>The encryption utility (internal/keygen.go)\<close>

subsection \<open>Base64\<close>

text \<open>
  \<open>base64.RawURLEncoding\<close>: the URL alphabet without padding. Three bytes become four
  characters of six bits each; a final group of one or two bytes becomes two or three
  characters. Decoding skips carriage returns and line feeds, rejects every other
  character outside the alphabet and rejects a final group of a single character.
\<close>

type_synonym byte = "8 word"

definition encodeURL :: string where
  "encodeURL = ''ABCDEFGHIJKLMNOPQRSTUVWXYZabcdefghijklmnopqrstuvwxyz0123456789-_''"

fun index_of :: "'a \<Rightarrow> 'a list \<Rightarrow> nat option" where
  "index_of x [] = None"
| "index_of x (y # ys) = (if x = y then Some 0 else map_option Suc (index_of x ys))"

fun encode_quanta :: "byte list \<Rightarrow> nat list" where
  "encode_quanta (a # b # c # rest) =
     (let val = unat a * 65536 + unat b * 256 + unat c
      in val div 262144 # val div 4096 mod 64 # val div 64 mod 64 # val mod 64 #
         encode_quanta rest)"
| "encode_quanta [a, b] =
     (let val = unat a * 65536 + unat b * 256
      in [val div 262144, val div 4096 mod 64, val div 64 mod 64])"
| "encode_quanta [a] =
     (let val = unat a * 65536
      in [val div 262144, val div 4096 mod 64])"
| "encode_quanta [] = []"

definition EncodeToString :: "byte list \<Rightarrow> string" where
  "EncodeToString src = map (\<lambda>v. encodeURL ! v) (encode_quanta src)"

fun decodeMap :: "string \<Rightarrow> nat list option" where
  "decodeMap [] = Some []"
| "decodeMap (c # cs) =
     (case index_of c encodeURL of
        None \<Rightarrow> None
      | Some v \<Rightarrow> map_option ((#) v) (decodeMap cs))"

fun decode_quanta :: "nat list \<Rightarrow> byte list option" where
  "decode_quanta (p # q # r # s # rest) =
     (let val = p * 262144 + q * 4096 + r * 64 + s
      in map_option (\<lambda>bs. of_nat (val div 65536) # of_nat (val div 256) # of_nat val # bs)
           (decode_quanta rest))"
| "decode_quanta [p, q, r] =
     (let val = p * 262144 + q * 4096 + r * 64
      in Some [of_nat (val div 65536), of_nat (val div 256)])"
| "decode_quanta [p, q] =
     (let val = p * 262144 + q * 4096
      in Some [of_nat (val div 65536)])"
| "decode_quanta [p] = None"
| "decode_quanta [] = Some []"

text \<open>The position of the first character that is neither in the alphabet nor a line
  break; a \<open>CorruptInputError\<close> reports it. A final group of a single character is
  reported at the last position of the input.\<close>

fun first_illegal :: "string \<Rightarrow> nat option" where
  "first_illegal [] = None"
| "first_illegal (c # cs) =
     (if index_of c encodeURL = None \<and> c \<noteq> CHR 0x0A \<and> c \<noteq> CHR 0x0D then Some 0
      else map_option Suc (first_illegal cs))"

definition CorruptInputError :: "nat \<Rightarrow> string" where
  "CorruptInputError n = ''illegal base64 data at input byte '' @ decimal n"

definition DecodeString :: "string \<Rightarrow> string + byte list" where
  "DecodeString s =
     (case first_illegal s of
        Some i \<Rightarrow> Inl (CorruptInputError i)
      | None \<Rightarrow>
          (case decodeMap (filter (\<lambda>c. c \<noteq> CHR 0x0A \<and> c \<noteq> CHR 0x0D) s) of
             None \<Rightarrow> Inl (CorruptInputError (length s - 1))
           | Some vs \<Rightarrow>
               (case decode_quanta vs of
                  None \<Rightarrow> Inl (CorruptInputError (length s - 1))
                | Some bs \<Rightarrow> Inr bs)))"

subsection \<open>The primitives behind \<open>crypto/aes\<close>, \<open>crypto/cipher\<close> and \<open>crypto/rand\<close>\<close>

text \<open>
  The library functions are parameters: what \<open>rand.Reader\<close> delivers when asked for a number
  of bytes (or the error it fails with), and AES-GCM itself as a pair of functions of key,
  nonce and data, sealing to the ciphertext followed by the tag and opening to the
  plaintext or to nothing when authentication fails.
\<close>

record crypto =
  rand_Reader :: "nat \<Rightarrow> string + byte list"
  aes_gcm_seal :: "byte list \<Rightarrow> byte list \<Rightarrow> byte list \<Rightarrow> byte list"
  aes_gcm_open :: "byte list \<Rightarrow> byte list \<Rightarrow> byte list \<Rightarrow> byte list option"

text \<open>\<open>io.ReadFull\<close> fills the whole buffer or reports an error: the reader's own, or, when
  the reader ends early, \<open>EOF\<close> if it delivered nothing and \<open>unexpected EOF\<close> if it
  delivered too little.\<close>

definition io_ReadFull :: "(nat \<Rightarrow> string + byte list) \<Rightarrow> nat \<Rightarrow> string + byte list" where
  "io_ReadFull rd n =
     (case rd n of
        Inl err \<Rightarrow> Inl err
      | Inr bs \<Rightarrow>
          if n \<le> length bs then Inr (take n bs)
          else if bs = [] then Inl ''EOF''
          else Inl ''unexpected EOF'')"

text \<open>\<open>aes.NewCipher\<close> accepts keys of 16, 24 or 32 bytes. \<open>cipher.NewGCM\<close> wraps a block
  cipher with the standard nonce size of 12 bytes and tag size of 16; for an AES block it
  does not fail.\<close>

definition aes_NewCipher :: "byte list \<Rightarrow> string + byte list" where
  "aes_NewCipher key =
     (if length key = 16 \<or> length key = 24 \<or> length key = 32 then Inr key
      else Inl (''crypto/aes: invalid key size '' @ decimal (length key)))"

record gcm =
  gcm_key :: "byte list"
  nonceSize :: nat
  tagSize :: nat

definition cipher_NewGCM :: "byte list \<Rightarrow> string + gcm" where
  "cipher_NewGCM block = Inr \<lparr>gcm_key = block, nonceSize = 12, tagSize = 16\<rparr>"

text \<open>
  Go slices share their backing array. A slice is modelled by the contents of its backing
  array from the slice's start to its capacity, together with its length. Writing a run
  of bytes into an array at an index:
\<close>

definition write_at :: "byte list \<Rightarrow> nat \<Rightarrow> byte list \<Rightarrow> byte list" where
  "write_at arr i bs = take i arr @ bs @ drop (i + length bs) arr"

text \<open>
  \<open>gcm.Seal(dst, nonce, plaintext, nil)\<close> appends the ciphertext and the tag to \<open>dst\<close>: in
  place when the capacity of \<open>dst\<close> suffices, into a fresh array otherwise. It returns the
  extended slice; the second component is the backing array of \<open>dst\<close> afterwards. A nonce
  of the wrong length panics.
\<close>

definition gcm_Seal ::
  "crypto \<Rightarrow> gcm \<Rightarrow> byte list \<Rightarrow> nat \<Rightarrow> byte list \<Rightarrow> byte list \<Rightarrow> (byte list \<times> byte list) go" where
  "gcm_Seal C g backing len nonce plaintext =
     (if length nonce \<noteq> nonceSize g then Panic
      else
        (let sealed = aes_gcm_seal C (gcm_key g) nonce plaintext;
             total = len + (length plaintext + tagSize g)
         in if total \<le> length backing
            then (let backing' = write_at backing len sealed
                  in Return (take total backing', backing'))
            else Return (take len backing @ sealed, backing)))"

text \<open>\<open>gcm.Open(ciphertext[:0], nonce, ciphertext, nil)\<close> decrypts over the ciphertext's own
  storage and returns the plaintext, or an error when the input is shorter than a tag or
  does not authenticate.\<close>

definition gcm_Open :: "crypto \<Rightarrow> gcm \<Rightarrow> byte list \<Rightarrow> byte list \<Rightarrow> (string + byte list) go" where
  "gcm_Open C g nonce ciphertext =
     (if length nonce \<noteq> nonceSize g then Panic
      else if length ciphertext < tagSize g
      then Return (Inl ''cipher: message authentication failed'')
      else (case aes_gcm_open C (gcm_key g) nonce ciphertext of
              None \<Rightarrow> Return (Inl ''cipher: message authentication failed'')
            | Some plaintext \<Rightarrow> Return (Inr plaintext)))"

subsection \<open>\<open>Encrypt\<close> and \<open>Decrypt\<close>\<close>

text \<open>\<open>Encrypt\<close> allocates one buffer for nonce, ciphertext and tag, reads the nonce into its
  first bytes, lets \<open>Seal\<close> append behind the nonce, drops the slice \<open>Seal\<close> returns and
  encodes the buffer.\<close>

definition Encrypt :: "crypto \<Rightarrow> byte list \<Rightarrow> byte list \<Rightarrow> (string + string) go" where
  "Encrypt C plaintext key =
     (case aes_NewCipher key of
        Inl err \<Rightarrow> Return (Inl err)
      | Inr block \<Rightarrow>
          (case cipher_NewGCM block of
             Inl err \<Rightarrow> Return (Inl err)
           | Inr g \<Rightarrow>
               (let rawSize = nonceSize g + length plaintext + 16;
                    out = replicate rawSize 0
                in case io_ReadFull (rand_Reader C) (nonceSize g) of
                     Inl err \<Rightarrow> Return (Inl err)
                   | Inr rnd \<Rightarrow>
                       (let out1 = write_at out 0 rnd;
                            nonce = take (nonceSize g) out1
                        in case gcm_Seal C g out1 (nonceSize g) nonce plaintext of
                             Panic \<Rightarrow> Panic
                           | Return (sealed, out2) \<Rightarrow> Return (Inr (EncodeToString out2))))))"

definition Decrypt :: "crypto \<Rightarrow> string \<Rightarrow> byte list \<Rightarrow> (string + byte list) go" where
  "Decrypt C cryptoText key =
     (case DecodeString cryptoText of
        Inl err \<Rightarrow> Return (Inl err)
      | Inr data \<Rightarrow>
          (case aes_NewCipher key of
             Inl err \<Rightarrow> Return (Inl err)
           | Inr block \<Rightarrow>
               (case cipher_NewGCM block of
                  Inl err \<Rightarrow> Return (Inl err)
                | Inr g \<Rightarrow>
                    if length data < nonceSize g then Return (Inl ''ciphertext too short'')
                    else gcm_Open C g (take (nonceSize g) data) (drop (nonceSize g) data))))"

subsection \<open>A stand-in for the primitives\<close>

text \<open>An instance of the parameters to run the definitions on: a fixed nonce, and an
  invertible byte shift with a constant tag in place of AES-GCM.\<close>

definition toy_rand :: "nat \<Rightarrow> string + byte list" where
  "toy_rand n = Inr [7, 7, 7, 7, 7, 7, 7, 7, 7, 7, 7, 7]"

definition toy_seal :: "byte list \<Rightarrow> byte list \<Rightarrow> byte list \<Rightarrow> byte list" where
  "toy_seal key nonce plaintext =
     map (\<lambda>b. b + 1) plaintext @ [9, 9, 9, 9, 9, 9, 9, 9, 9, 9, 9, 9, 9, 9, 9, 9]"

definition toy_open :: "byte list \<Rightarrow> byte list \<Rightarrow> byte list \<Rightarrow> byte list option" where
  "toy_open key nonce sealed =
     (if length sealed < 16 then None
      else if drop (length sealed - 16) sealed = [9, 9, 9, 9, 9, 9, 9, 9, 9, 9, 9, 9, 9, 9, 9, 9]
      then Some (map (\<lambda>b. b - 1) (take (length sealed - 16) sealed))
      else None)"

definition toy_crypto :: crypto where
  "toy_crypto = \<lparr>rand_Reader = toy_rand, aes_gcm_seal = toy_seal, aes_gcm_open = toy_open\<rparr>"

definition toy_key :: "byte list" where
  "toy_key = [1, 1, 1, 1, 1, 1, 1, 1, 1, 1, 1, 1, 1, 1, 1, 1]"

definition toy_nonce :: "byte list" where
  "toy_nonce = [7, 7, 7, 7, 7, 7, 7, 7, 7, 7, 7, 7]"

definition toy_plaintext :: "byte list" where
  "toy_plaintext = [104, 105]"

section \<open>Properties of the gateway\<close>

subsection \<open>What the helpers compute\<close>

lemma getCached_eq:
  "getCached e w k =
     ((case redis_get_fault e of
         Some err \<Rightarrow> []
       | None \<Rightarrow> (case redis_lookup e w k of None \<Rightarrow> [] | Some v \<Rightarrow> v)),
      w\<lparr>redis_log := redis_log w @ [GET k]\<rparr>)"
  by (simp add: getCached_def redis_Get_def Let_def split: option.splits)

lemma search_eq:
  "search e w u =
     (if url_parses e u then
        ((case upstream e (outbound u) of
            TransportError err \<Rightarrow> Return (Inl err)
          | HttpResponse status body \<Rightarrow>
              if status = 200 then
                (case body of Inl err \<Rightarrow> Return (Inl err) | Inr b \<Rightarrow> Return (Inr b))
              else Return (Inl (''received unexpected status code '' @ fmt_d status))),
         w\<lparr>http_log := http_log w @ [outbound u]\<rparr>)
      else (Panic, w))"
  by (simp add: search_def http_NewRequest_def Header_Set_def httpClient_Do_def outbound_def
      MethodGet_def StatusOK_def Let_def split: http_outcome.splits sum.splits)

lemmas orchestrator_defs =
  forwardSearch_def reverseSearch_def getCached_eq search_eq setCache_def redis_Set_def
  createResponse_def Let_def

lemmas base_defs =
  env_ok_def world0_def req_forward_def req_reverse_def parses_all_def mapbox_ok_def

lemma responded_respond:
  "responded (respond w req st b) st' b' \<longleftrightarrow> st = st' \<and> b = b'"
  by (simp add: createResponse_def Let_def)

lemma http_log_respond: "http_log (snd (respond w req st b)) = http_log w"
  by (simp add: createResponse_def Let_def)

lemma redis_log_respond: "redis_log (snd (respond w req st b)) = redis_log w"
  by (simp add: createResponse_def Let_def)

lemma redis_data_respond: "redis_data (snd (respond w req st b)) = redis_data w"
  by (simp add: createResponse_def Let_def)

lemma fst_respond:
  "fst (respond w req st b) =
     Return \<lparr>StatusCode = st, Body = b,
             ResponseHeaders = corsHeaders (snd (createResponse w req st b))\<rparr>"
  by (simp add: createResponse_def Let_def)

lemma setCache_http_log: "http_log (setCache e w k v) = http_log w"
  by (simp add: setCache_def redis_Set_def Let_def split: option.splits)

lemma setCache_redis_log:
  "redis_log (setCache e w k v) = redis_log w @ [SET k v (200 * Hour)]"
  by (simp add: setCache_def redis_Set_def Let_def split: option.splits)

lemma setCache_corsHeaders: "corsHeaders (setCache e w k v) = corsHeaders w"
  by (simp add: setCache_def redis_Set_def Let_def split: option.splits)

lemmas respond_simps =
  responded_respond http_log_respond redis_log_respond redis_data_respond
  setCache_http_log setCache_redis_log setCache_corsHeaders

lemma redis_lookup_cong: "redis_data w' = redis_data w \<Longrightarrow> redis_lookup e w' k = redis_lookup e w k"
  by (simp add: respond_simps redis_lookup_def)

lemma fst_getCached:
  "fst (getCached e w k) =
     (case redis_get_fault e of
        Some err \<Rightarrow> []
      | None \<Rightarrow> (case redis_lookup e w k of None \<Rightarrow> [] | Some v \<Rightarrow> v))"
  by (simp add: respond_simps getCached_eq)

lemma snd_getCached: "snd (getCached e w k) = w\<lparr>redis_log := redis_log w @ [GET k]\<rparr>"
  by (simp add: respond_simps getCached_eq)

lemma search_panics: "\<not> url_parses e u \<Longrightarrow> search e w u = (Panic, w)"
  by (simp add: respond_simps search_eq)

lemma snd_search:
  "url_parses e u \<Longrightarrow> snd (search e w u) = w\<lparr>http_log := http_log w @ [outbound u]\<rparr>"
  by (simp add: respond_simps search_eq)

lemma search_Return_parses: "fst (search e w u) = Return x \<Longrightarrow> url_parses e u"
  by (simp add: respond_simps search_eq split: if_splits)

lemma search_Panic_iff: "fst (search e w u) = Panic \<longleftrightarrow> \<not> url_parses e u"
  by (simp add: respond_simps search_eq split: http_outcome.splits sum.splits)

lemma fst_search_world: "fst (search e w u) = fst (search e w' u)"
  by (simp add: respond_simps search_eq)

lemma search_status_text:
  assumes "url_parses e u" and "upstream e (outbound u) = HttpResponse S b" and "S \<noteq> StatusOK"
  shows "fst (search e w u) = Return (Inl (''received unexpected status code '' @ fmt_d S))"
  using assms by (simp add: respond_simps search_eq StatusOK_def)

lemma search_transport_text:
  assumes "url_parses e u" and "upstream e (outbound u) = TransportError err"
  shows "fst (search e w u) = Return (Inl err)"
  using assms by (simp add: respond_simps search_eq)

lemma search_ok_body:
  assumes "url_parses e u" and "upstream e (outbound u) = HttpResponse StatusOK (Inr B)"
  shows "fst (search e w u) = Return (Inr B)"
  using assms by (simp add: respond_simps search_eq StatusOK_def)

lemma forwardSearch_hit:
  assumes "fst (getCached e w query) \<noteq> []"
  shows "forwardSearch e w req query =
           respond (w\<lparr>redis_log := redis_log w @ [GET query]\<rparr>) req StatusOK
             (fst (getCached e w query))"
  using assms by (simp add: respond_simps forwardSearch_def getCached_eq)

lemma forwardSearch_panic:
  assumes "fst (getCached e w query) = []"
    and "fst (search e (snd (getCached e w query)) (forwardURL e query)) = Panic"
  shows "forwardSearch e w req query = (Panic, w\<lparr>redis_log := redis_log w @ [GET query]\<rparr>)"
proof -
  have "\<not> url_parses e (forwardURL e query)"
    using assms(2) by (simp add: respond_simps search_Panic_iff)
  then show ?thesis
    using assms(1) by (simp add: respond_simps forwardSearch_def getCached_eq search_panics)
qed

lemma forwardSearch_failed:
  assumes "fst (getCached e w query) = []"
    and "fst (search e (snd (getCached e w query)) (forwardURL e query)) = Return (Inl err)"
  shows "forwardSearch e w req query =
           respond (w\<lparr>redis_log := redis_log w @ [GET query],
                      http_log := http_log w @ [outbound (forwardURL e query)]\<rparr>)
                   req StatusInternalServerError err"
proof -
  let ?w1 = "w\<lparr>redis_log := redis_log w @ [GET query]\<rparr>"
  have c: "getCached e w query = ([], ?w1)"
    using assms(1) by (simp add: respond_simps getCached_eq)
  have p: "url_parses e (forwardURL e query)"
    using assms(2) by (rule search_Return_parses)
  have "search e ?w1 (forwardURL e query) =
          (Return (Inl err), ?w1\<lparr>http_log := http_log ?w1 @ [outbound (forwardURL e query)]\<rparr>)"
    using assms(2) snd_search [OF p, of ?w1] by (simp add: respond_simps c prod_eq_iff)
  then show ?thesis
    by (simp add: respond_simps forwardSearch_def c)
qed

lemma forwardSearch_fetched:
  assumes "fst (getCached e w query) = []"
    and "fst (search e (snd (getCached e w query)) (forwardURL e query)) = Return (Inr B)"
  shows "forwardSearch e w req query =
           respond (setCache e (w\<lparr>redis_log := redis_log w @ [GET query],
                                  http_log := http_log w @ [outbound (forwardURL e query)]\<rparr>)
                      query B)
                   req StatusOK B"
proof -
  let ?w1 = "w\<lparr>redis_log := redis_log w @ [GET query]\<rparr>"
  have c: "getCached e w query = ([], ?w1)"
    using assms(1) by (simp add: respond_simps getCached_eq)
  have p: "url_parses e (forwardURL e query)"
    using assms(2) by (rule search_Return_parses)
  have "search e ?w1 (forwardURL e query) =
          (Return (Inr B), ?w1\<lparr>http_log := http_log ?w1 @ [outbound (forwardURL e query)]\<rparr>)"
    using assms(2) snd_search [OF p, of ?w1] by (simp add: respond_simps c prod_eq_iff)
  then show ?thesis
    by (simp add: respond_simps forwardSearch_def c)
qed

lemma reverseSearch_hit:
  assumes "fst (getCached e w (lat @ lon)) \<noteq> []"
  shows "reverseSearch e w req lat lon =
           respond (w\<lparr>redis_log := redis_log w @ [GET (lat @ lon)]\<rparr>) req StatusOK
             (fst (getCached e w (lat @ lon)))"
  using assms by (simp add: respond_simps reverseSearch_def getCached_eq Let_def)

lemma reverseSearch_panic:
  assumes "fst (getCached e w (lat @ lon)) = []"
    and "fst (search e (snd (getCached e w (lat @ lon))) (reverseURL e lat lon)) = Panic"
  shows "reverseSearch e w req lat lon =
           (Panic, w\<lparr>redis_log := redis_log w @ [GET (lat @ lon)]\<rparr>)"
proof -
  have "\<not> url_parses e (reverseURL e lat lon)"
    using assms(2) by (simp add: respond_simps search_Panic_iff)
  then show ?thesis
    using assms(1) by (simp add: respond_simps reverseSearch_def getCached_eq search_panics Let_def)
qed

lemma reverseSearch_failed:
  assumes "fst (getCached e w (lat @ lon)) = []"
    and "fst (search e (snd (getCached e w (lat @ lon))) (reverseURL e lat lon)) = Return (Inl err)"
  shows "reverseSearch e w req lat lon =
           respond (w\<lparr>redis_log := redis_log w @ [GET (lat @ lon)],
                      http_log := http_log w @ [outbound (reverseURL e lat lon)]\<rparr>)
                   req StatusInternalServerError err"
proof -
  let ?w1 = "w\<lparr>redis_log := redis_log w @ [GET (lat @ lon)]\<rparr>"
  have c: "getCached e w (lat @ lon) = ([], ?w1)"
    using assms(1) by (simp add: respond_simps getCached_eq)
  have p: "url_parses e (reverseURL e lat lon)"
    using assms(2) by (rule search_Return_parses)
  have "search e ?w1 (reverseURL e lat lon) =
          (Return (Inl err), ?w1\<lparr>http_log := http_log ?w1 @ [outbound (reverseURL e lat lon)]\<rparr>)"
    using assms(2) snd_search [OF p, of ?w1] by (simp add: respond_simps c prod_eq_iff)
  then show ?thesis
    by (simp add: respond_simps reverseSearch_def c Let_def)
qed

lemma reverseSearch_fetched:
  assumes "fst (getCached e w (lat @ lon)) = []"
    and "fst (search e (snd (getCached e w (lat @ lon))) (reverseURL e lat lon)) = Return (Inr B)"
  shows "reverseSearch e w req lat lon =
           respond (setCache e (w\<lparr>redis_log := redis_log w @ [GET (lat @ lon)],
                                  http_log := http_log w @ [outbound (reverseURL e lat lon)]\<rparr>)
                      (lat @ lon) B)
                   req StatusOK B"
proof -
  let ?w1 = "w\<lparr>redis_log := redis_log w @ [GET (lat @ lon)]\<rparr>"
  have c: "getCached e w (lat @ lon) = ([], ?w1)"
    using assms(1) by (simp add: respond_simps getCached_eq)
  have p: "url_parses e (reverseURL e lat lon)"
    using assms(2) by (rule search_Return_parses)
  have "search e ?w1 (reverseURL e lat lon) =
          (Return (Inr B), ?w1\<lparr>http_log := http_log ?w1 @ [outbound (reverseURL e lat lon)]\<rparr>)"
    using assms(2) snd_search [OF p, of ?w1] by (simp add: respond_simps c prod_eq_iff)
  then show ?thesis
    by (simp add: respond_simps reverseSearch_def c Let_def)
qed

lemma setCache_stored:
  "redis_set_fault e = None \<Longrightarrow> now e' < now e + 200 * Hour \<Longrightarrow>
     redis_lookup e' (setCache e w k v) k = Some v"
  by (simp add: respond_simps setCache_def redis_Set_def redis_lookup_def Let_def)

lemma setCache_dropped:
  "redis_set_fault e = Some err \<Longrightarrow> redis_data (setCache e w k v) = redis_data w"
  by (simp add: respond_simps setCache_def redis_Set_def Let_def)

subsection \<open>The four ways a search can end\<close>

lemma forwardSearch_outcome:
  obtains (hit) "fst (getCached e w query) \<noteq> []"
      "forwardSearch e w req query =
         respond (w\<lparr>redis_log := redis_log w @ [GET query]\<rparr>) req StatusOK
           (fst (getCached e w query))"
  | (panic) "fst (getCached e w query) = []"
      "fst (search e (snd (getCached e w query)) (forwardURL e query)) = Panic"
      "forwardSearch e w req query = (Panic, w\<lparr>redis_log := redis_log w @ [GET query]\<rparr>)"
  | (failed) err where "fst (getCached e w query) = []"
      "fst (search e (snd (getCached e w query)) (forwardURL e query)) = Return (Inl err)"
      "forwardSearch e w req query =
         respond (w\<lparr>redis_log := redis_log w @ [GET query],
                    http_log := http_log w @ [outbound (forwardURL e query)]\<rparr>)
                 req StatusInternalServerError err"
  | (fetched) B where "fst (getCached e w query) = []"
      "fst (search e (snd (getCached e w query)) (forwardURL e query)) = Return (Inr B)"
      "forwardSearch e w req query =
         respond (setCache e (w\<lparr>redis_log := redis_log w @ [GET query],
                                http_log := http_log w @ [outbound (forwardURL e query)]\<rparr>)
                    query B)
                 req StatusOK B"
proof (cases "fst (getCached e w query) = []")
  case False
  then show ?thesis using hit forwardSearch_hit by blast
next
  case miss: True
  show ?thesis
  proof (cases "fst (search e (snd (getCached e w query)) (forwardURL e query))")
    case Panic
    then show ?thesis using panic miss forwardSearch_panic by blast
  next
    case (Return x)
    then show ?thesis
    proof (cases x)
      case (Inl err)
      then show ?thesis using failed miss Return forwardSearch_failed by blast
    next
      case (Inr B)
      then show ?thesis using fetched miss Return forwardSearch_fetched by blast
    qed
  qed
qed

lemma reverseSearch_outcome:
  obtains (hit) "fst (getCached e w (lat @ lon)) \<noteq> []"
      "reverseSearch e w req lat lon =
         respond (w\<lparr>redis_log := redis_log w @ [GET (lat @ lon)]\<rparr>) req StatusOK
           (fst (getCached e w (lat @ lon)))"
  | (panic) "fst (getCached e w (lat @ lon)) = []"
      "fst (search e (snd (getCached e w (lat @ lon))) (reverseURL e lat lon)) = Panic"
      "reverseSearch e w req lat lon =
         (Panic, w\<lparr>redis_log := redis_log w @ [GET (lat @ lon)]\<rparr>)"
  | (failed) err where "fst (getCached e w (lat @ lon)) = []"
      "fst (search e (snd (getCached e w (lat @ lon))) (reverseURL e lat lon)) = Return (Inl err)"
      "reverseSearch e w req lat lon =
         respond (w\<lparr>redis_log := redis_log w @ [GET (lat @ lon)],
                    http_log := http_log w @ [outbound (reverseURL e lat lon)]\<rparr>)
                 req StatusInternalServerError err"
  | (fetched) B where "fst (getCached e w (lat @ lon)) = []"
      "fst (search e (snd (getCached e w (lat @ lon))) (reverseURL e lat lon)) = Return (Inr B)"
      "reverseSearch e w req lat lon =
         respond (setCache e (w\<lparr>redis_log := redis_log w @ [GET (lat @ lon)],
                                http_log := http_log w @ [outbound (reverseURL e lat lon)]\<rparr>)
                    (lat @ lon) B)
                 req StatusOK B"
proof (cases "fst (getCached e w (lat @ lon)) = []")
  case False
  then show ?thesis using hit reverseSearch_hit by blast
next
  case miss: True
  show ?thesis
  proof (cases "fst (search e (snd (getCached e w (lat @ lon))) (reverseURL e lat lon))")
    case Panic
    then show ?thesis using panic miss reverseSearch_panic by blast
  next
    case (Return x)
    then show ?thesis
    proof (cases x)
      case (Inl err)
      then show ?thesis using failed miss Return reverseSearch_failed by blast
    next
      case (Inr B)
      then show ?thesis using fetched miss Return reverseSearch_fetched by blast
    qed
  qed
qed

lemma forwardSearch_redis_cmds:
  "redis_log (snd (forwardSearch e w req query)) = redis_log w @ [GET query] \<or>
   (\<exists>B. redis_log (snd (forwardSearch e w req query)) =
           redis_log w @ [GET query, SET query B (200 * Hour)])"
  by (cases rule: forwardSearch_outcome [of e w query req]) (simp_all add: respond_simps)

lemma reverseSearch_redis_cmds:
  "redis_log (snd (reverseSearch e w req lat lon)) = redis_log w @ [GET (lat @ lon)] \<or>
   (\<exists>B. redis_log (snd (reverseSearch e w req lat lon)) =
           redis_log w @ [GET (lat @ lon), SET (lat @ lon) B (200 * Hour)])"
  by (cases rule: reverseSearch_outcome [of e w lat lon req]) (simp_all add: respond_simps)

lemma reverseSearch_first_cmd:
  "take (Suc (length (redis_log w))) (redis_log (snd (reverseSearch e w req lat lon))) =
     redis_log w @ [GET (lat @ lon)]"
  using reverseSearch_redis_cmds [of e w req lat lon] by auto

lemma forwardSearch_miss_calls:
  assumes "fst (getCached e w query) = []" and "url_parses e (forwardURL e query)"
  shows "http_log (snd (forwardSearch e w req query)) =
           http_log w @ [outbound (forwardURL e query)]"
proof (cases rule: forwardSearch_outcome [of e w query req])
  case hit
  then show ?thesis using assms(1) by (simp add: respond_simps)
next
  case panic
  then show ?thesis using assms(2) by (simp add: respond_simps search_Panic_iff)
next
  case (failed err)
  then show ?thesis by (simp add: respond_simps)
next
  case (fetched B)
  then show ?thesis by (simp add: respond_simps)
qed

lemma reverseSearch_miss_calls:
  assumes "fst (getCached e w (lat @ lon)) = []" and "url_parses e (reverseURL e lat lon)"
  shows "http_log (snd (reverseSearch e w req lat lon)) =
           http_log w @ [outbound (reverseURL e lat lon)]"
proof (cases rule: reverseSearch_outcome [of e w lat lon req])
  case hit
  then show ?thesis using assms(1) by (simp add: respond_simps)
next
  case panic
  then show ?thesis using assms(2) by (simp add: respond_simps search_Panic_iff)
next
  case (failed err)
  then show ?thesis by (simp add: respond_simps)
next
  case (fetched B)
  then show ?thesis by (simp add: respond_simps)
qed

subsection \<open>The header map stays well formed\<close>

lemma cors_ok_respond: "cors_ok w \<Longrightarrow> cors_ok (snd (respond w req st b))"
  by (auto simp add: createResponse_def cors_ok_def Let_def)

lemma cors_ok_cong: "corsHeaders w' = corsHeaders w \<Longrightarrow> cors_ok w' \<longleftrightarrow> cors_ok w"
  by (simp add: respond_simps cors_ok_def)

lemma cors_ok_init: "corsHeaders w = init_corsHeaders \<Longrightarrow> cors_ok w"
  by (simp add: respond_simps cors_ok_def init_corsHeaders_def localhostOrigin_def)

lemma cors_ok_respond_same:
  "cors_ok w \<Longrightarrow> corsHeaders w' = corsHeaders w \<Longrightarrow> cors_ok (snd (respond w' req st b))"
  using cors_ok_respond [of w' req st b] cors_ok_cong [of w' w] by blast

lemma cors_ok_forwardSearch: "cors_ok w \<Longrightarrow> cors_ok (snd (forwardSearch e w req query))"
  by (cases rule: forwardSearch_outcome [of e w query req])
     (simp_all add: respond_simps cors_ok_respond_same, simp add: cors_ok_def)

lemma cors_ok_reverseSearch: "cors_ok w \<Longrightarrow> cors_ok (snd (reverseSearch e w req lat lon))"
  by (cases rule: reverseSearch_outcome [of e w lat lon req])
     (simp_all add: respond_simps cors_ok_respond_same, simp add: cors_ok_def)

lemma cors_ok_handler: "cors_ok w \<Longrightarrow> cors_ok (snd (handler e w r))"
  by (simp add: respond_simps handler_def Let_def cors_ok_forwardSearch cors_ok_reverseSearch cors_ok_respond)

lemma strings_Split_nonempty: "strings_Split s c \<noteq> []"
  by (induction s) (auto split: list.splits)

lemma handler_preflight:
  assumes "(HTTPMethod r = MethodOptions \<and> lookup (Headers r) ''Origin'' = localhostOrigin) \<or>
           lookup (Headers r) ''Origin'' = githubOrigin"
  shows "handler e w r = respond w r StatusOK []"
  using assms by (simp add: respond_simps handler_def)

lemma handler_dispatch:
  assumes "lookup (Headers r) ''Origin'' \<noteq> githubOrigin" and "HTTPMethod r = MethodGet"
  shows "handler e w r =
           (if last (strings_Split (Path r) CHR ''/'') = ''forward''
            then forwardSearch e w r (lookup (QueryStringParameters r) ''q'')
            else if last (strings_Split (Path r) CHR ''/'') = ''reverse''
            then reverseSearch e w r (lookup (QueryStringParameters r) ''lat'')
                                     (lookup (QueryStringParameters r) ''lon'')
            else respond w r StatusNotFound [])"
  using assms
  by (simp add: respond_simps handler_def Let_def strings_Split_nonempty MethodGet_def MethodOptions_def)

lemma handler_other_method:
  assumes "lookup (Headers r) ''Origin'' \<noteq> githubOrigin"
    and "HTTPMethod r \<noteq> MethodGet" and "HTTPMethod r \<noteq> MethodOptions"
  shows "handler e w r = respond w r StatusMethodNotAllowed []"
  using assms by (simp add: respond_simps handler_def Let_def)

subsection \<open>Two runs that both miss\<close>

lemma corsHeaders_createResponse:
  "corsHeaders (snd (createResponse w req st b)) =
     (if lookup (Headers req) ''Origin'' = localhostOrigin \<or>
         lookup (Headers req) ''Origin'' = githubOrigin
      then (corsHeaders w)(''Access-Control-Allow-Origin'' \<mapsto> lookup (Headers req) ''Origin'')
      else corsHeaders w)"
  by (simp add: respond_simps createResponse_def Let_def)

lemma fst_search_env:
  "url_parses e' = url_parses e \<Longrightarrow> upstream e' = upstream e \<Longrightarrow>
     fst (search e' w' u) = fst (search e w u)"
  by (simp add: respond_simps search_eq)

lemma miss_runs_agree_forward:
  assumes m: "fst (getCached e w query) = []" and m': "fst (getCached e' w' query) = []"
    and env: "url_parses e' = url_parses e" "upstream e' = upstream e"
    and tok: "mapbox_access_token e' = mapbox_access_token e"
    and c: "corsHeaders w' = corsHeaders w" and h: "http_log w' = http_log w"
    and l: "redis_log w' = redis_log w"
  shows "fst (forwardSearch e' w' req query) = fst (forwardSearch e w req query) \<and>
         http_log (snd (forwardSearch e' w' req query)) = http_log (snd (forwardSearch e w req query)) \<and>
         redis_log (snd (forwardSearch e' w' req query)) = redis_log (snd (forwardSearch e w req query))"
proof -
  have u: "forwardSearchURL e' = forwardSearchURL e"
    using tok by (simp add: respond_simps forwardSearchURL_def)
  have s: "fst (search e' (snd (getCached e' w' query)) (forwardURL e' query)) =
           fst (search e (snd (getCached e w query)) (forwardURL e query))"
    unfolding u using env by (rule fst_search_env)
  show ?thesis
  proof (cases rule: forwardSearch_outcome [of e w query req])
    case hit
    then show ?thesis using m by (simp add: respond_simps)
  next
    case panic
    have "fst (search e' (snd (getCached e' w' query)) (forwardURL e' query)) = Panic"
      using s panic(2) by (simp only:)
    then have "forwardSearch e' w' req query = (Panic, w'\<lparr>redis_log := redis_log w' @ [GET query]\<rparr>)"
      using m' by (intro forwardSearch_panic)
    then show ?thesis
      by (simp add: respond_simps panic(3) h l)
  next
    case (failed err)
    have "fst (search e' (snd (getCached e' w' query)) (forwardURL e' query)) = Return (Inl err)"
      using s failed(2) by (simp only:)
    then have "forwardSearch e' w' req query =
         respond (w'\<lparr>redis_log := redis_log w' @ [GET query],
                    http_log := http_log w' @ [outbound (forwardURL e' query)]\<rparr>)
                 req StatusInternalServerError err"
      using m' by (intro forwardSearch_failed)
    then show ?thesis
      by (simp add: respond_simps failed(3) h l u fst_respond corsHeaders_createResponse c)
  next
    case (fetched B)
    have "fst (search e' (snd (getCached e' w' query)) (forwardURL e' query)) = Return (Inr B)"
      using s fetched(2) by (simp only:)
    then have "forwardSearch e' w' req query =
         respond (setCache e' (w'\<lparr>redis_log := redis_log w' @ [GET query],
                                http_log := http_log w' @ [outbound (forwardURL e' query)]\<rparr>)
                    query B)
                 req StatusOK B"
      using m' by (intro forwardSearch_fetched)
    then show ?thesis
      by (simp add: respond_simps fetched(3) h l u fst_respond corsHeaders_createResponse c)
  qed
qed

lemma miss_runs_agree_reverse:
  assumes m: "fst (getCached e w (lat @ lon)) = []" and m': "fst (getCached e' w' (lat @ lon)) = []"
    and env: "url_parses e' = url_parses e" "upstream e' = upstream e"
    and tok: "mapbox_access_token e' = mapbox_access_token e"
    and c: "corsHeaders w' = corsHeaders w" and h: "http_log w' = http_log w"
    and l: "redis_log w' = redis_log w"
  shows "fst (reverseSearch e' w' req lat lon) = fst (reverseSearch e w req lat lon) \<and>
         http_log (snd (reverseSearch e' w' req lat lon)) = http_log (snd (reverseSearch e w req lat lon)) \<and>
         redis_log (snd (reverseSearch e' w' req lat lon)) = redis_log (snd (reverseSearch e w req lat lon))"
proof -
  have u: "reverseSearchURL e' = reverseSearchURL e"
    using tok by (simp add: respond_simps reverseSearchURL_def)
  have s: "fst (search e' (snd (getCached e' w' (lat @ lon))) (reverseURL e' lat lon)) =
           fst (search e (snd (getCached e w (lat @ lon))) (reverseURL e lat lon))"
    unfolding u using env by (rule fst_search_env)
  show ?thesis
  proof (cases rule: reverseSearch_outcome [of e w lat lon req])
    case hit
    then show ?thesis using m by (simp add: respond_simps)
  next
    case panic
    have "fst (search e' (snd (getCached e' w' (lat @ lon))) (reverseURL e' lat lon)) = Panic"
      using s panic(2) by (simp only:)
    then have "reverseSearch e' w' req lat lon = (Panic, w'\<lparr>redis_log := redis_log w' @ [GET (lat @ lon)]\<rparr>)"
      using m' by (intro reverseSearch_panic)
    then show ?thesis
      by (simp add: respond_simps panic(3) h l)
  next
    case (failed err)
    have "fst (search e' (snd (getCached e' w' (lat @ lon))) (reverseURL e' lat lon)) = Return (Inl err)"
      using s failed(2) by (simp only:)
    then have "reverseSearch e' w' req lat lon =
         respond (w'\<lparr>redis_log := redis_log w' @ [GET (lat @ lon)],
                    http_log := http_log w' @ [outbound (reverseURL e' lat lon)]\<rparr>)
                 req StatusInternalServerError err"
      using m' by (intro reverseSearch_failed)
    then show ?thesis
      by (simp add: respond_simps failed(3) h l u fst_respond corsHeaders_createResponse c)
  next
    case (fetched B)
    have "fst (search e' (snd (getCached e' w' (lat @ lon))) (reverseURL e' lat lon)) = Return (Inr B)"
      using s fetched(2) by (simp only:)
    then have "reverseSearch e' w' req lat lon =
         respond (setCache e' (w'\<lparr>redis_log := redis_log w' @ [GET (lat @ lon)],
                                http_log := http_log w' @ [outbound (reverseURL e' lat lon)]\<rparr>)
                    (lat @ lon) B)
                 req StatusOK B"
      using m' by (intro reverseSearch_fetched)
    then show ?thesis
      by (simp add: respond_simps fetched(3) h l u fst_respond corsHeaders_createResponse c)
  qed
qed

subsection \<open>Reads that come back empty, and decimal notation\<close>

lemma fst_getCached_fault: "redis_get_fault e = Some err \<Longrightarrow> fst (getCached e w k) = []"
  by (simp add: respond_simps fst_getCached)

lemma fst_getCached_blank:
  "redis_get_fault e = None \<Longrightarrow> redis_lookup e w k = Some [] \<Longrightarrow> fst (getCached e w k) = []"
  by (simp add: respond_simps fst_getCached)

lemma fst_getCached_deleted:
  "redis_get_fault e' = None \<Longrightarrow>
     fst (getCached e' (w\<lparr>redis_data := (redis_data w)(k := None)\<rparr>) k) = []"
  by (simp add: respond_simps fst_getCached redis_lookup_def)

lemma redis_lookup_set_fault:
  "redis_lookup (e\<lparr>redis_set_fault := x\<rparr>) w k = redis_lookup e w k"
  by (simp add: respond_simps redis_lookup_def split: option.splits)

lemma fst_getCached_set_fault:
  "fst (getCached (e\<lparr>redis_set_fault := x\<rparr>) w k) = fst (getCached e w k)"
  by (simp add: respond_simps fst_getCached redis_lookup_set_fault split: option.splits)

lemma fmt_d_503: "fmt_d 503 = ''503''"
  by (simp add: respond_simps fmt_d_def decimal.simps digit_char_def)

lemma digit_of_digit_char: "d < 10 \<Longrightarrow> digit_of (digit_char d) = Some d"
proof -
  assume "d < 10"
  then consider "d = 0" | "d = 1" | "d = 2" | "d = 3" | "d = 4" | "d = 5" | "d = 6" | "d = 7"
    | "d = 8" | "d = 9"
    by (auto simp add: less_Suc_eq eval_nat_numeral)
  then show ?thesis
    by cases (simp_all add: digit_char_def digit_of_def digit_table_def)
qed

lemma read_digits_snoc:
  "read_digits acc (cs @ [c]) =
     (case read_digits acc cs of
        None \<Rightarrow> None
      | Some v \<Rightarrow> (case digit_of c of None \<Rightarrow> None | Some d \<Rightarrow> Some (10 * v + d)))"
  by (induction cs arbitrary: acc) (simp_all split: option.splits)

lemma read_digits_decimal: "read_digits 0 (decimal n) = Some n"
proof (induction n rule: decimal.induct)
  case (1 n)
  show ?case
  proof (cases "n < 10")
    case True
    then show ?thesis
      by (subst decimal.simps) (simp add: digit_of_digit_char)
  next
    case False
    then have "read_digits 0 (decimal (n div 10)) = Some (n div 10)"
      using "1.IH" by simp
    then show ?thesis
      using False by (subst decimal.simps) (simp add: read_digits_snoc digit_of_digit_char)
  qed
qed

lemma decimal_nonempty: "decimal n \<noteq> []"
  by (subst decimal.simps) simp

lemma decimal_digits: "list_all is_digit (decimal n)"
proof (induction n rule: decimal.induct)
  case (1 n)
  show ?case
  proof (cases "n < 10")
    case True
    then show ?thesis
      by (subst decimal.simps) (simp add: is_digit_def digit_of_digit_char)
  next
    case False
    then have "list_all is_digit (decimal (n div 10))"
      using "1.IH" by simp
    then show ?thesis
      using False by (subst decimal.simps) (simp add: is_digit_def digit_of_digit_char)
  qed
qed

lemma decimal_leading: "n \<noteq> 0 \<Longrightarrow> take 1 (decimal n) \<noteq> ''0''"
proof (induction n rule: decimal.induct)
  case (1 n)
  show ?case
  proof (cases "n < 10")
    case True
    then have "digit_of (digit_char n) = Some n"
      by (rule digit_of_digit_char)
    then have "digit_char n \<noteq> CHR ''0''"
      using "1.prems" by (auto simp add: digit_of_def digit_table_def)
    then show ?thesis
      using True by (subst decimal.simps) simp
  next
    case False
    then have "take 1 (decimal (n div 10)) \<noteq> ''0''"
      using "1.IH" by simp
    then show ?thesis
      using False decimal_nonempty [of "n div 10"]
      by (subst decimal.simps) (cases "decimal (n div 10)", simp_all)
  qed
qed

lemma not_minus_digit: "is_digit c \<Longrightarrow> c \<noteq> CHR ''-''"
  by (auto simp add: is_digit_def digit_of_def digit_table_def)

lemma read_decimal_fmt_d: "read_decimal (fmt_d S) = Some S"
proof (cases "S < 0")
  case True
  then show ?thesis
    using decimal_nonempty [of "nat (- S)"]
    by (simp add: read_decimal_def fmt_d_def read_digits_decimal)
next
  case False
  obtain c cs where d: "decimal (nat S) = c # cs"
    using decimal_nonempty [of "nat S"] by (cases "decimal (nat S)") auto
  have "is_digit c"
    using decimal_digits [of "nat S"] by (simp add: d)
  then have "c \<noteq> CHR ''-''"
    by (rule not_minus_digit)
  then have "read_decimal (decimal (nat S)) = map_option int (read_digits 0 (decimal (nat S)))"
    by (simp add: read_decimal_def d)
  then show ?thesis
    using False by (simp add: fmt_d_def read_digits_decimal)
qed

lemma fmt_d_digits: "0 \<le> S \<Longrightarrow> list_all is_digit (fmt_d S)"
  by (simp add: fmt_d_def decimal_digits)

lemma fmt_d_leading: "S \<noteq> 0 \<Longrightarrow> take 1 (fmt_d S) \<noteq> ''0''"
  using decimal_leading [of "nat S"] by (simp add: fmt_d_def)

lemma fmt_d_zero: "S = 0 \<Longrightarrow> fmt_d S = ''0''"
  by (simp add: fmt_d_def decimal.simps digit_char_def)

subsection \<open>Cache hits\<close>

text \<open>
  C1, as stated: whenever the derived key is present in the cache, the answer is 200 with
  the stored value and no request goes upstream. This fails for a key stored with the
  empty string: \<open>getCached\<close> reports it as \<open>""\<close>, which is also what it reports for a
  miss, so the upstream is called and its body is the answer.
\<close>

theorem cache_hit_empty_value_counterexample:
  "redis_lookup env_ok world_blank ''Seattle'' = Some [] \<and>
   \<not> responded (forwardSearch env_ok world_blank req_forward ''Seattle'') StatusOK [] \<and>
   http_log (snd (forwardSearch env_ok world_blank req_forward ''Seattle'')) \<noteq>
     http_log world_blank"
  by (simp add: respond_simps orchestrator_defs base_defs world_blank_def world_hit_def redis_lookup_def
      StatusOK_def)

text \<open>
  C1, amended: when the Redis read succeeds and the derived key (the query text for a
  forward search, latitude followed by longitude for a reverse search) is present with a
  non-empty value, the search answers 200 with that value and sends nothing upstream.
\<close>

theorem cache_hit_short_circuit:
  assumes "redis_get_fault e = None" and "v \<noteq> []"
  shows "(redis_lookup e w query = Some v \<longrightarrow>
            responded (forwardSearch e w req query) StatusOK v \<and>
            http_log (snd (forwardSearch e w req query)) = http_log w) \<and>
         (redis_lookup e w (lat @ lon) = Some v \<longrightarrow>
            responded (reverseSearch e w req lat lon) StatusOK v \<and>
            http_log (snd (reverseSearch e w req lat lon)) = http_log w)"
  using assms by (simp add: respond_simps orchestrator_defs)

theorem cache_hit_short_circuit_witness:
  "redis_get_fault env_ok = None \<and>
   redis_lookup env_ok world_hit ''Seattle'' = Some ''{cached}'' \<and>
   redis_lookup env_ok world_hit (''47.6'' @ ''-122.3'') = Some ''{cached}'' \<and>
   responded (forwardSearch env_ok world_hit req_forward ''Seattle'') StatusOK ''{cached}'' \<and>
   http_log (snd (forwardSearch env_ok world_hit req_forward ''Seattle'')) = http_log world_hit \<and>
   responded (reverseSearch env_ok world_hit req_reverse ''47.6'' ''-122.3'') StatusOK
     ''{cached}'' \<and>
   http_log (snd (reverseSearch env_ok world_hit req_reverse ''47.6'' ''-122.3'')) =
     http_log world_hit"
  using cache_hit_short_circuit
    [where e = env_ok and v = "''{cached}''" and w = world_hit and query = "''Seattle''"
       and lat = "''47.6''" and lon = "''-122.3''" and req = req_forward]
    cache_hit_short_circuit
    [where e = env_ok and v = "''{cached}''" and w = world_hit and query = "''Seattle''"
       and lat = "''47.6''" and lon = "''-122.3''" and req = req_reverse]
  by (simp add: respond_simps base_defs world_blank_def world_hit_def redis_lookup_def)

subsection \<open>Populating the cache\<close>

text \<open>
  C2, as stated: after a miss and a successful upstream call with body B, a later request
  for the same key gets B from the cache and does not go upstream again. This fails when
  B is the empty string: the write takes place and a Redis get returns it, but
  \<open>getCached\<close> cannot tell it from a miss, so the next request goes upstream again.
\<close>

theorem cache_aside_empty_body_counterexample:
  "fst (getCached env_blank world0 ''Seattle'') = [] \<and>
   fst (search env_blank (snd (getCached env_blank world0 ''Seattle''))
          (forwardURL env_blank ''Seattle'')) = Return (Inr []) \<and>
   responded (forwardSearch env_blank world0 req_forward ''Seattle'') StatusOK [] \<and>
   redis_lookup env_blank world_after_blank ''Seattle'' = Some [] \<and>
   http_log (snd (forwardSearch env_blank world_after_blank req_forward ''Seattle'')) \<noteq>
     http_log world_after_blank"
  by (simp add: respond_simps orchestrator_defs base_defs env_blank_def mapbox_blank_def env_later_def
      world_after_blank_def redis_lookup_def StatusOK_def Hour_def)

text \<open>
  C2, amended: on a miss where the upstream call succeeds with a non-empty body B and the
  Redis write succeeds, the search answers 200 with B after issuing exactly a get and a
  set of B under the derived key with a TTL of 200 hours; any later search for the same
  key whose Redis read succeeds and whose clock is less than 200 hours past the write
  finds B there, answers 200 with B and sends nothing upstream.
\<close>

theorem cache_aside_population:
  assumes "B \<noteq> []" and "redis_set_fault e = None"
    and "redis_get_fault e' = None" and "now e' < now e + 200 * Hour"
  shows "(fst (getCached e w query) = [] \<and>
          fst (search e (snd (getCached e w query)) (forwardURL e query)) = Return (Inr B) \<longrightarrow>
            responded (forwardSearch e w req query) StatusOK B \<and>
            redis_log (snd (forwardSearch e w req query)) =
              redis_log w @ [GET query, SET query B (200 * Hour)] \<and>
            redis_lookup e' (snd (forwardSearch e w req query)) query = Some B \<and>
            responded (forwardSearch e' (snd (forwardSearch e w req query)) req' query) StatusOK B \<and>
            http_log (snd (forwardSearch e' (snd (forwardSearch e w req query)) req' query)) =
              http_log (snd (forwardSearch e w req query))) \<and>
         (fst (getCached e w (lat @ lon)) = [] \<and>
          fst (search e (snd (getCached e w (lat @ lon))) (reverseURL e lat lon)) = Return (Inr B) \<longrightarrow>
            responded (reverseSearch e w req lat lon) StatusOK B \<and>
            redis_log (snd (reverseSearch e w req lat lon)) =
              redis_log w @ [GET (lat @ lon), SET (lat @ lon) B (200 * Hour)] \<and>
            redis_lookup e' (snd (reverseSearch e w req lat lon)) (lat @ lon) = Some B \<and>
            responded (reverseSearch e' (snd (reverseSearch e w req lat lon)) req' lat lon)
              StatusOK B \<and>
            http_log (snd (reverseSearch e' (snd (reverseSearch e w req lat lon)) req' lat lon)) =
              http_log (snd (reverseSearch e w req lat lon)))"
proof (intro conjI impI)
  assume h: "fst (getCached e w query) = [] \<and>
          fst (search e (snd (getCached e w query)) (forwardURL e query)) = Return (Inr B)"
  let ?w1 = "snd (forwardSearch e w req query)"
  have run: "forwardSearch e w req query =
           respond (setCache e (w\<lparr>redis_log := redis_log w @ [GET query],
                                  http_log := http_log w @ [outbound (forwardURL e query)]\<rparr>)
                      query B)
                   req StatusOK B"
    using h by (intro forwardSearch_fetched) (simp_all add: respond_simps)
  show "responded (forwardSearch e w req query) StatusOK B"
    by (simp add: respond_simps run)
  show "redis_log ?w1 = redis_log w @ [GET query, SET query B (200 * Hour)]"
    by (simp add: respond_simps run)
  show stored: "redis_lookup e' ?w1 query = Some B"
    using assms by (simp add: respond_simps run setCache_stored redis_lookup_cong [OF redis_data_respond])
  have "fst (getCached e' ?w1 query) = B"
    using stored assms(3) by (simp add: respond_simps fst_getCached)
  then have again: "forwardSearch e' ?w1 req' query =
      respond (?w1\<lparr>redis_log := redis_log ?w1 @ [GET query]\<rparr>) req' StatusOK B"
    using forwardSearch_hit [of e' ?w1 query req'] assms(1) by (simp add: respond_simps)
  show "responded (forwardSearch e' ?w1 req' query) StatusOK B"
    by (simp add: respond_simps again)
  show "http_log (snd (forwardSearch e' ?w1 req' query)) = http_log ?w1"
    by (simp add: respond_simps again)
next
  assume h: "fst (getCached e w (lat @ lon)) = [] \<and>
          fst (search e (snd (getCached e w (lat @ lon))) (reverseURL e lat lon)) = Return (Inr B)"
  let ?w1 = "snd (reverseSearch e w req lat lon)"
  have run: "reverseSearch e w req lat lon =
           respond (setCache e (w\<lparr>redis_log := redis_log w @ [GET (lat @ lon)],
                                  http_log := http_log w @ [outbound (reverseURL e lat lon)]\<rparr>)
                      (lat @ lon) B)
                   req StatusOK B"
    using h by (intro reverseSearch_fetched) (simp_all add: respond_simps)
  show "responded (reverseSearch e w req lat lon) StatusOK B"
    by (simp add: respond_simps run)
  show "redis_log ?w1 = redis_log w @ [GET (lat @ lon), SET (lat @ lon) B (200 * Hour)]"
    by (simp add: respond_simps run)
  show stored: "redis_lookup e' ?w1 (lat @ lon) = Some B"
    using assms by (simp add: respond_simps run setCache_stored redis_lookup_cong [OF redis_data_respond])
  have "fst (getCached e' ?w1 (lat @ lon)) = B"
    using stored assms(3) by (simp add: respond_simps fst_getCached)
  then have again: "reverseSearch e' ?w1 req' lat lon =
      respond (?w1\<lparr>redis_log := redis_log ?w1 @ [GET (lat @ lon)]\<rparr>) req' StatusOK B"
    using reverseSearch_hit [of e' ?w1 lat lon req'] assms(1) by (simp add: respond_simps)
  show "responded (reverseSearch e' ?w1 req' lat lon) StatusOK B"
    by (simp add: respond_simps again)
  show "http_log (snd (reverseSearch e' ?w1 req' lat lon)) = http_log ?w1"
    by (simp add: respond_simps again)
qed

theorem cache_aside_population_witness:
  "''{features}'' \<noteq> [] \<and> redis_set_fault env_ok = None \<and> redis_get_fault env_later = None \<and>
   now env_later < now env_ok + 200 * Hour \<and>
   fst (getCached env_ok world0 ''Seattle'') = [] \<and>
   fst (search env_ok (snd (getCached env_ok world0 ''Seattle'')) (forwardURL env_ok ''Seattle'')) =
     Return (Inr ''{features}'') \<and>
   responded (forwardSearch env_ok world0 req_forward ''Seattle'') StatusOK ''{features}'' \<and>
   redis_log (snd (forwardSearch env_ok world0 req_forward ''Seattle'')) =
     redis_log world0 @ [GET ''Seattle'', SET ''Seattle'' ''{features}'' (200 * Hour)] \<and>
   responded (forwardSearch env_later (snd (forwardSearch env_ok world0 req_forward ''Seattle''))
                req_forward ''Seattle'') StatusOK ''{features}'' \<and>
   http_log (snd (forwardSearch env_later (snd (forwardSearch env_ok world0 req_forward ''Seattle''))
                    req_forward ''Seattle'')) =
     http_log (snd (forwardSearch env_ok world0 req_forward ''Seattle'')) \<and>
   fst (getCached env_ok world0 (''47.6'' @ ''-122.3'')) = [] \<and>
   fst (search env_ok (snd (getCached env_ok world0 (''47.6'' @ ''-122.3'')))
          (reverseURL env_ok ''47.6'' ''-122.3'')) = Return (Inr ''{features}'') \<and>
   responded (reverseSearch env_later
                (snd (reverseSearch env_ok world0 req_reverse ''47.6'' ''-122.3''))
                req_reverse ''47.6'' ''-122.3'') StatusOK ''{features}''"
proof -
  have pre: "''{features}'' \<noteq> [] \<and> redis_set_fault env_ok = None \<and>
      redis_get_fault env_later = None \<and> now env_later < now env_ok + 200 * Hour"
    by (simp add: respond_simps base_defs env_blank_def mapbox_blank_def env_later_def world_after_blank_def
        Hour_def)
  have missF: "fst (getCached env_ok world0 ''Seattle'') = [] \<and>
      fst (search env_ok (snd (getCached env_ok world0 ''Seattle'')) (forwardURL env_ok ''Seattle'')) =
        Return (Inr ''{features}'')"
    by (simp add: respond_simps getCached_eq search_eq base_defs env_blank_def mapbox_blank_def env_later_def
        world_after_blank_def redis_lookup_def)
  have missR: "fst (getCached env_ok world0 (''47.6'' @ ''-122.3'')) = [] \<and>
      fst (search env_ok (snd (getCached env_ok world0 (''47.6'' @ ''-122.3'')))
            (reverseURL env_ok ''47.6'' ''-122.3'')) = Return (Inr ''{features}'')"
    by (simp add: respond_simps getCached_eq search_eq base_defs env_blank_def mapbox_blank_def env_later_def
        world_after_blank_def redis_lookup_def)
  show ?thesis
    using pre missF missR
      cache_aside_population
        [where B = "''{features}''" and e = env_ok and e' = env_later and w = world0
           and query = "''Seattle''" and lat = "''47.6''" and lon = "''-122.3''"
           and req = req_forward and req' = req_forward]
      cache_aside_population
        [where B = "''{features}''" and e = env_ok and e' = env_later and w = world0
           and query = "''Seattle''" and lat = "''47.6''" and lon = "''-122.3''"
           and req = req_reverse and req' = req_reverse]
    by (simp add: respond_simps)
qed

subsection \<open>Cache keys\<close>

text \<open>
  C3: every Redis command of a forward search uses the query text itself as the key, and
  every Redis command of a reverse search uses the latitude followed directly by the
  longitude; a search issues one get and at most one set. The reverse key is not
  injective: the distinct pairs ("1", "23") and ("12", "3") both look up "123".
\<close>

theorem cache_key_derivation:
  "(redis_log (snd (forwardSearch e w req query)) = redis_log w @ [GET query] \<or>
    (\<exists>B. redis_log (snd (forwardSearch e w req query)) =
            redis_log w @ [GET query, SET query B (200 * Hour)])) \<and>
   (redis_log (snd (reverseSearch e w req lat lon)) = redis_log w @ [GET (lat @ lon)] \<or>
    (\<exists>B. redis_log (snd (reverseSearch e w req lat lon)) =
            redis_log w @ [GET (lat @ lon), SET (lat @ lon) B (200 * Hour)])) \<and>
   (''1'', ''23'') \<noteq> (''12'', ''3'') \<and>
   take (Suc (length (redis_log w))) (redis_log (snd (reverseSearch e w req ''1'' ''23''))) =
     redis_log w @ [GET ''123''] \<and>
   take (Suc (length (redis_log w))) (redis_log (snd (reverseSearch e w req ''12'' ''3''))) =
     redis_log w @ [GET ''123'']"
  using forwardSearch_redis_cmds [of e w req query] reverseSearch_redis_cmds [of e w req lat lon]
    reverseSearch_first_cmd [of w e req "''1''" "''23''"]
    reverseSearch_first_cmd [of w e req "''12''" "''3''"]
  by (simp add: respond_simps)

subsection \<open>CORS headers\<close>

text \<open>
  C4, as stated: a request whose Origin is not one of the two known origins gets a response
  without an Access-Control-Allow-Origin header. The header map is created with that
  entry and no code path removes it, so the header is always there: in a fresh process a
  request from https://example.com is answered with the localhost origin.
\<close>

theorem cors_unlisted_origin_counterexample:
  "lookup (Headers req_unlisted) ''Origin'' \<noteq> localhostOrigin \<and>
   lookup (Headers req_unlisted) ''Origin'' \<noteq> githubOrigin \<and>
   ResponseHeaders (fst (createResponse world0 req_unlisted StatusOK []))
     ''Access-Control-Allow-Origin'' = Some ''http://localhost:3000''"
  by (simp add: respond_simps createResponse_def base_defs req_unlisted_def req_forward_github_def lookup_def
      localhostOrigin_def
      githubOrigin_def init_corsHeaders_def)

text \<open>
  C4, amended: in every state the process can be in, a response to a request from one of
  the two known origins carries that origin in Access-Control-Allow-Origin; a response to
  any other request carries the header as well, with the value the process-wide map held
  before the request; Access-Control-Allow-Headers and Access-Control-Allow-Methods are
  "*" in every case.
\<close>

theorem cors_headers:
  assumes "cors_ok w"
  shows "(lookup (Headers req) ''Origin'' = localhostOrigin \<or>
          lookup (Headers req) ''Origin'' = githubOrigin \<longrightarrow>
            ResponseHeaders (fst (createResponse w req status body)) ''Access-Control-Allow-Origin'' =
              Some (lookup (Headers req) ''Origin'')) \<and>
         (lookup (Headers req) ''Origin'' \<noteq> localhostOrigin \<and>
          lookup (Headers req) ''Origin'' \<noteq> githubOrigin \<longrightarrow>
            ResponseHeaders (fst (createResponse w req status body)) ''Access-Control-Allow-Origin'' =
              corsHeaders w ''Access-Control-Allow-Origin'' \<and>
            corsHeaders w ''Access-Control-Allow-Origin'' \<noteq> None) \<and>
         ResponseHeaders (fst (createResponse w req status body)) ''Access-Control-Allow-Headers'' =
           Some ''*'' \<and>
         ResponseHeaders (fst (createResponse w req status body)) ''Access-Control-Allow-Methods'' =
           Some ''*''"
  using assms by (auto simp add: createResponse_def cors_ok_def Let_def)

theorem cors_headers_witness:
  "cors_ok world0 \<and>
   lookup (Headers req_forward_github) ''Origin'' = githubOrigin \<and>
   ResponseHeaders (fst (createResponse world0 req_forward_github StatusOK []))
     ''Access-Control-Allow-Origin'' = Some ''https://tshrestha.github.io'' \<and>
   lookup (Headers req_unlisted) ''Origin'' \<noteq> localhostOrigin \<and>
   lookup (Headers req_unlisted) ''Origin'' \<noteq> githubOrigin \<and>
   ResponseHeaders (fst (createResponse world0 req_unlisted StatusOK []))
     ''Access-Control-Allow-Origin'' = corsHeaders world0 ''Access-Control-Allow-Origin'' \<and>
   ResponseHeaders (fst (createResponse world0 req_unlisted StatusOK []))
     ''Access-Control-Allow-Headers'' = Some ''*'' \<and>
   ResponseHeaders (fst (createResponse world0 req_unlisted StatusOK []))
     ''Access-Control-Allow-Methods'' = Some ''*''"
  using cors_headers [where w = world0 and req = req_forward_github and status = StatusOK and body = "[]"]
    cors_headers [where w = world0 and req = req_unlisted and status = StatusOK and body = "[]"]
  by (simp add: respond_simps base_defs req_unlisted_def req_forward_github_def cors_ok_def
      init_corsHeaders_def lookup_def
      localhostOrigin_def githubOrigin_def)

subsection \<open>Routing\<close>

text \<open>
  C5 says that a GET ending in forward is dispatched to the forward search, that a GET
  ending in anything but forward or reverse is answered 404, and that a POST is answered
  405. For a request whose Origin is https://tshrestha.github.io the first condition of
  \<open>handler\<close> holds whatever the method, and the request is answered 200 with an empty
  body before any routing: no Redis command, no upstream request. The forward search
  itself, called on the same request, answers with the upstream body.
\<close>

theorem handler_github_origin_short_circuit:
  "responded (handler env_ok world0 req_forward_github) StatusOK [] \<and>
   redis_log (snd (handler env_ok world0 req_forward_github)) = [] \<and>
   http_log (snd (handler env_ok world0 req_forward_github)) = [] \<and>
   responded (forwardSearch env_ok world0 req_forward_github ''Seattle'') StatusOK ''{features}'' \<and>
   responded (handler env_ok world0 req_unknown_github) StatusOK [] \<and>
   responded (handler env_ok world0 req_post_github) StatusOK []"
  by (simp add: respond_simps handler_def orchestrator_defs base_defs req_forward_github_def
      req_unknown_github_def req_post_github_def lookup_def
      githubOrigin_def localhostOrigin_def StatusOK_def redis_lookup_def)

subsection \<open>Upstream failures\<close>

text \<open>
  C6: on a miss (the read came back empty) where \<open>search\<close> returns an error, the search
  answers 500 with the error's text as the body, after exactly one upstream request and
  without writing to the cache. For an upstream status S other than 200 the text is
  "received unexpected status code " followed by S in decimal (a string that reads back
  as S, made of digit characters only when S is not negative, and without a leading zero
  unless S is 0); for a transport failure it is the transport error's own text.
\<close>

theorem upstream_failure_is_500:
  "(fst (getCached e w query) = [] \<and>
    fst (search e (snd (getCached e w query)) (forwardURL e query)) = Return (Inl err) \<longrightarrow>
      responded (forwardSearch e w req query) StatusInternalServerError err \<and>
      http_log (snd (forwardSearch e w req query)) = http_log w @ [outbound (forwardURL e query)] \<and>
      redis_log (snd (forwardSearch e w req query)) = redis_log w @ [GET query]) \<and>
   (fst (getCached e w (lat @ lon)) = [] \<and>
    fst (search e (snd (getCached e w (lat @ lon))) (reverseURL e lat lon)) = Return (Inl err) \<longrightarrow>
      responded (reverseSearch e w req lat lon) StatusInternalServerError err \<and>
      http_log (snd (reverseSearch e w req lat lon)) =
        http_log w @ [outbound (reverseURL e lat lon)] \<and>
      redis_log (snd (reverseSearch e w req lat lon)) = redis_log w @ [GET (lat @ lon)]) \<and>
   (url_parses e u \<and> upstream e (outbound u) = HttpResponse S b \<and> S \<noteq> StatusOK \<longrightarrow>
      fst (search e w u) = Return (Inl (''received unexpected status code '' @ fmt_d S))) \<and>
   (url_parses e u \<and> upstream e (outbound u) = TransportError msg \<longrightarrow>
      fst (search e w u) = Return (Inl msg)) \<and>
   read_decimal (fmt_d S) = Some S \<and>
   (0 \<le> S \<longrightarrow> list_all is_digit (fmt_d S)) \<and>
   (S \<noteq> 0 \<longrightarrow> take 1 (fmt_d S) \<noteq> ''0'') \<and>
   (S = 0 \<longrightarrow> fmt_d S = ''0'')"
proof (intro conjI impI)
  assume h: "fst (getCached e w query) = [] \<and>
    fst (search e (snd (getCached e w query)) (forwardURL e query)) = Return (Inl err)"
  have run: "forwardSearch e w req query =
         respond (w\<lparr>redis_log := redis_log w @ [GET query],
                    http_log := http_log w @ [outbound (forwardURL e query)]\<rparr>)
                 req StatusInternalServerError err"
    using h by (intro forwardSearch_failed) (simp_all add: respond_simps)
  show "responded (forwardSearch e w req query) StatusInternalServerError err"
    by (simp add: respond_simps run)
  show "http_log (snd (forwardSearch e w req query)) = http_log w @ [outbound (forwardURL e query)]"
    by (simp add: respond_simps run)
  show "redis_log (snd (forwardSearch e w req query)) = redis_log w @ [GET query]"
    by (simp add: respond_simps run)
next
  assume h: "fst (getCached e w (lat @ lon)) = [] \<and>
    fst (search e (snd (getCached e w (lat @ lon))) (reverseURL e lat lon)) = Return (Inl err)"
  have run: "reverseSearch e w req lat lon =
         respond (w\<lparr>redis_log := redis_log w @ [GET (lat @ lon)],
                    http_log := http_log w @ [outbound (reverseURL e lat lon)]\<rparr>)
                 req StatusInternalServerError err"
    using h by (intro reverseSearch_failed) (simp_all add: respond_simps)
  show "responded (reverseSearch e w req lat lon) StatusInternalServerError err"
    by (simp add: respond_simps run)
  show "http_log (snd (reverseSearch e w req lat lon)) =
        http_log w @ [outbound (reverseURL e lat lon)]"
    by (simp add: respond_simps run)
  show "redis_log (snd (reverseSearch e w req lat lon)) = redis_log w @ [GET (lat @ lon)]"
    by (simp add: respond_simps run)
next
  assume "url_parses e u \<and> upstream e (outbound u) = HttpResponse S b \<and> S \<noteq> StatusOK"
  then show "fst (search e w u) = Return (Inl (''received unexpected status code '' @ fmt_d S))"
    using search_status_text by blast
next
  assume "url_parses e u \<and> upstream e (outbound u) = TransportError msg"
  then show "fst (search e w u) = Return (Inl msg)"
    using search_transport_text by blast
next
  show "read_decimal (fmt_d S) = Some S"
    by (rule read_decimal_fmt_d)
next
  assume "0 \<le> S"
  then show "list_all is_digit (fmt_d S)"
    by (rule fmt_d_digits)
next
  assume "S \<noteq> 0"
  then show "take 1 (fmt_d S) \<noteq> ''0''"
    by (rule fmt_d_leading)
next
  assume "S = 0"
  then show "fmt_d S = ''0''"
    by (rule fmt_d_zero)
qed

theorem upstream_failure_is_500_witness:
  "fst (getCached env_503 world0 ''Seattle'') = [] \<and>
   url_parses env_503 (forwardURL env_503 ''Seattle'') \<and>
   upstream env_503 (outbound (forwardURL env_503 ''Seattle'')) =
     HttpResponse 503 (Inr ''Service Unavailable'') \<and>
   503 \<noteq> StatusOK \<and>
   fst (search env_503 (snd (getCached env_503 world0 ''Seattle'')) (forwardURL env_503 ''Seattle'')) =
     Return (Inl ''received unexpected status code 503'') \<and>
   responded (forwardSearch env_503 world0 req_forward ''Seattle'') StatusInternalServerError
     ''received unexpected status code 503'' \<and>
   http_log (snd (forwardSearch env_503 world0 req_forward ''Seattle'')) =
     http_log world0 @ [outbound (forwardURL env_503 ''Seattle'')] \<and>
   redis_log (snd (forwardSearch env_503 world0 req_forward ''Seattle'')) =
     redis_log world0 @ [GET ''Seattle''] \<and>
   fst (getCached env_unreachable world0 (''47.6'' @ ''-122.3'')) = [] \<and>
   url_parses env_unreachable (reverseURL env_unreachable ''47.6'' ''-122.3'') \<and>
   upstream env_unreachable (outbound (reverseURL env_unreachable ''47.6'' ''-122.3'')) =
     TransportError (no_such_host (reverseURL env_unreachable ''47.6'' ''-122.3'')) \<and>
   responded (reverseSearch env_unreachable world0 req_reverse ''47.6'' ''-122.3'')
     StatusInternalServerError
       (no_such_host (reverseURL env_unreachable ''47.6'' ''-122.3'')) \<and>
   http_log (snd (reverseSearch env_unreachable world0 req_reverse ''47.6'' ''-122.3'')) =
     http_log world0 @ [outbound (reverseURL env_unreachable ''47.6'' ''-122.3'')] \<and>
   read_decimal (fmt_d 503) = Some 503 \<and>
   (0 :: int) \<le> 503 \<and> list_all is_digit (fmt_d 503) \<and>
   (503 :: int) \<noteq> 0 \<and> take 1 (fmt_d 503) \<noteq> ''0'' \<and>
   fmt_d 0 = ''0''"
proof -
  have miss: "fst (getCached env_503 world0 ''Seattle'') = []"
    by (simp add: respond_simps fst_getCached base_defs env_503_def mapbox_503_def env_unreachable_def
        mapbox_unreachable_def redis_lookup_def)
  have up: "url_parses env_503 (forwardURL env_503 ''Seattle'') \<and>
      upstream env_503 (outbound (forwardURL env_503 ''Seattle'')) =
        HttpResponse 503 (Inr ''Service Unavailable'') \<and> 503 \<noteq> StatusOK"
    by (simp add: respond_simps base_defs env_503_def mapbox_503_def env_unreachable_def mapbox_unreachable_def
        StatusOK_def)
  note at_503 = upstream_failure_is_500
    [where e = env_503 and w = "snd (getCached env_503 world0 ''Seattle'')"
       and u = "forwardURL env_503 ''Seattle''" and S = "503" and b = "Inr ''Service Unavailable''"]
  have shown: "fst (search env_503 (snd (getCached env_503 world0 ''Seattle''))
                 (forwardURL env_503 ''Seattle'')) =
               Return (Inl ''received unexpected status code 503'')"
    using at_503 up by (simp add: respond_simps fmt_d_503)
  have forward: "responded (forwardSearch env_503 world0 req_forward ''Seattle'')
        StatusInternalServerError ''received unexpected status code 503'' \<and>
      http_log (snd (forwardSearch env_503 world0 req_forward ''Seattle'')) =
        http_log world0 @ [outbound (forwardURL env_503 ''Seattle'')] \<and>
      redis_log (snd (forwardSearch env_503 world0 req_forward ''Seattle'')) =
        redis_log world0 @ [GET ''Seattle'']"
    using miss shown
      upstream_failure_is_500
        [where e = env_503 and w = world0 and query = "''Seattle''" and req = req_forward
           and err = "''received unexpected status code 503''"]
    by (simp add: respond_simps)
  have miss': "fst (getCached env_unreachable world0 (''47.6'' @ ''-122.3'')) = []"
    by (simp add: respond_simps fst_getCached base_defs env_503_def mapbox_503_def env_unreachable_def
        mapbox_unreachable_def redis_lookup_def)
  have down: "url_parses env_unreachable (reverseURL env_unreachable ''47.6'' ''-122.3'') \<and>
      upstream env_unreachable (outbound (reverseURL env_unreachable ''47.6'' ''-122.3'')) =
        TransportError (no_such_host (reverseURL env_unreachable ''47.6'' ''-122.3''))"
    by (simp add: base_defs env_unreachable_def mapbox_unreachable_def outbound_def)
  note at_down = upstream_failure_is_500
    [where e = env_unreachable and w = "snd (getCached env_unreachable world0 (''47.6'' @ ''-122.3''))"
       and u = "reverseURL env_unreachable ''47.6'' ''-122.3''"
       and msg = "no_such_host (reverseURL env_unreachable ''47.6'' ''-122.3'')"]
  have failed: "fst (search env_unreachable
                      (snd (getCached env_unreachable world0 (''47.6'' @ ''-122.3'')))
                      (reverseURL env_unreachable ''47.6'' ''-122.3'')) =
                  Return (Inl (no_such_host (reverseURL env_unreachable ''47.6'' ''-122.3'')))"
    using at_down down by (simp add: respond_simps)
  have reverse: "responded (reverseSearch env_unreachable world0 req_reverse ''47.6'' ''-122.3'')
        StatusInternalServerError
       (no_such_host (reverseURL env_unreachable ''47.6'' ''-122.3'')) \<and>
      http_log (snd (reverseSearch env_unreachable world0 req_reverse ''47.6'' ''-122.3'')) =
        http_log world0 @ [outbound (reverseURL env_unreachable ''47.6'' ''-122.3'')]"
    using miss' failed
      upstream_failure_is_500
        [where e = env_unreachable and w = world0 and lat = "''47.6''" and lon = "''-122.3''"
           and req = req_reverse
           and err = "no_such_host (reverseURL env_unreachable ''47.6'' ''-122.3'')"]
    by (simp add: respond_simps)
  have digits: "read_decimal (fmt_d 503) = Some 503 \<and>
      (0 :: int) \<le> 503 \<and> list_all is_digit (fmt_d 503) \<and>
      (503 :: int) \<noteq> 0 \<and> take 1 (fmt_d 503) \<noteq> ''0''"
    using at_503 by simp
  have zero: "fmt_d 0 = ''0''"
    using upstream_failure_is_500 [where S = "0"] by simp
  show ?thesis
    using miss up shown forward miss' down reverse digits zero by blast
qed

subsection \<open>A failed cache read\<close>

text \<open>
  C7: when the Redis get fails, \<open>getCached\<close> reports the empty string, and the search does
  what it does on a clean miss: its result, its upstream requests and its Redis commands
  equal those of the run with a working read and the key absent. The upstream is called
  (exactly once, whenever the request URL can be built), and if that call succeeds with
  body B the answer is 200 with B.
\<close>

theorem cache_read_failure_degrades_to_miss:
  assumes "redis_get_fault e = Some fault"
  shows "fst (getCached e w key) = [] \<and>
     fst (forwardSearch e w req query) =
       fst (forwardSearch (e\<lparr>redis_get_fault := None\<rparr>)
              (w\<lparr>redis_data := (redis_data w)(query := None)\<rparr>) req query) \<and>
     http_log (snd (forwardSearch e w req query)) =
       http_log (snd (forwardSearch (e\<lparr>redis_get_fault := None\<rparr>)
                        (w\<lparr>redis_data := (redis_data w)(query := None)\<rparr>) req query)) \<and>
     redis_log (snd (forwardSearch e w req query)) =
       redis_log (snd (forwardSearch (e\<lparr>redis_get_fault := None\<rparr>)
                         (w\<lparr>redis_data := (redis_data w)(query := None)\<rparr>) req query)) \<and>
     (url_parses e (forwardURL e query) \<longrightarrow>
        http_log (snd (forwardSearch e w req query)) =
          http_log w @ [outbound (forwardURL e query)]) \<and>
     (fst (search e (snd (getCached e w query)) (forwardURL e query)) = Return (Inr B) \<longrightarrow>
        responded (forwardSearch e w req query) StatusOK B) \<and>
     fst (reverseSearch e w req lat lon) =
       fst (reverseSearch (e\<lparr>redis_get_fault := None\<rparr>)
              (w\<lparr>redis_data := (redis_data w)(lat @ lon := None)\<rparr>) req lat lon) \<and>
     http_log (snd (reverseSearch e w req lat lon)) =
       http_log (snd (reverseSearch (e\<lparr>redis_get_fault := None\<rparr>)
                        (w\<lparr>redis_data := (redis_data w)(lat @ lon := None)\<rparr>) req lat lon)) \<and>
     redis_log (snd (reverseSearch e w req lat lon)) =
       redis_log (snd (reverseSearch (e\<lparr>redis_get_fault := None\<rparr>)
                         (w\<lparr>redis_data := (redis_data w)(lat @ lon := None)\<rparr>) req lat lon)) \<and>
     (url_parses e (reverseURL e lat lon) \<longrightarrow>
        http_log (snd (reverseSearch e w req lat lon)) =
          http_log w @ [outbound (reverseURL e lat lon)]) \<and>
     (fst (search e (snd (getCached e w (lat @ lon))) (reverseURL e lat lon)) = Return (Inr B) \<longrightarrow>
        responded (reverseSearch e w req lat lon) StatusOK B)"
proof -
  let ?e0 = "e\<lparr>redis_get_fault := None\<rparr>"
  have miss: "fst (getCached e w k) = []" for k
    using assms by (rule fst_getCached_fault)
  have miss0: "fst (getCached ?e0 (w\<lparr>redis_data := (redis_data w)(k := None)\<rparr>) k) = []" for k
    by (rule fst_getCached_deleted) simp
  have F: "fst (forwardSearch e w req query) =
       fst (forwardSearch ?e0 (w\<lparr>redis_data := (redis_data w)(query := None)\<rparr>) req query) \<and>
     http_log (snd (forwardSearch e w req query)) =
       http_log (snd (forwardSearch ?e0 (w\<lparr>redis_data := (redis_data w)(query := None)\<rparr>) req query)) \<and>
     redis_log (snd (forwardSearch e w req query)) =
       redis_log (snd (forwardSearch ?e0 (w\<lparr>redis_data := (redis_data w)(query := None)\<rparr>) req query))"
    using miss_runs_agree_forward [OF miss0 miss, of "query" req] by (simp add: respond_simps)
  have R: "fst (reverseSearch e w req lat lon) =
       fst (reverseSearch ?e0 (w\<lparr>redis_data := (redis_data w)(lat @ lon := None)\<rparr>) req lat lon) \<and>
     http_log (snd (reverseSearch e w req lat lon)) =
       http_log (snd (reverseSearch ?e0 (w\<lparr>redis_data := (redis_data w)(lat @ lon := None)\<rparr>) req lat lon)) \<and>
     redis_log (snd (reverseSearch e w req lat lon)) =
       redis_log (snd (reverseSearch ?e0 (w\<lparr>redis_data := (redis_data w)(lat @ lon := None)\<rparr>) req lat lon))"
    using miss_runs_agree_reverse [OF miss0 miss, of lat lon req] by (simp add: respond_simps)
  have FC: "http_log (snd (forwardSearch e w req query)) =
        http_log w @ [outbound (forwardURL e query)]"
    if "url_parses e (forwardURL e query)"
    using miss that by (rule forwardSearch_miss_calls)
  have RC: "http_log (snd (reverseSearch e w req lat lon)) =
        http_log w @ [outbound (reverseURL e lat lon)]"
    if "url_parses e (reverseURL e lat lon)"
    using miss that by (rule reverseSearch_miss_calls)
  have FB: "responded (forwardSearch e w req query) StatusOK B"
    if "fst (search e (snd (getCached e w query)) (forwardURL e query)) = Return (Inr B)"
    using forwardSearch_fetched [OF miss that, of req] by (simp add: respond_simps)
  have RB: "responded (reverseSearch e w req lat lon) StatusOK B"
    if "fst (search e (snd (getCached e w (lat @ lon))) (reverseURL e lat lon)) = Return (Inr B)"
    using reverseSearch_fetched [OF miss that, of req] by (simp add: respond_simps)
  show ?thesis
    using miss F R FC RC FB RB by blast
qed

theorem cache_read_failure_degrades_to_miss_witness:
  "redis_get_fault env_get_down = Some ''dial tcp: connection refused'' \<and>
   redis_data world_hit ''Seattle'' \<noteq> None \<and>
   fst (getCached env_get_down world_hit ''Seattle'') = [] \<and>
   url_parses env_get_down (forwardURL env_get_down ''Seattle'') \<and>
   url_parses env_get_down (reverseURL env_get_down ''47.6'' ''-122.3'') \<and>
   fst (search env_get_down (snd (getCached env_get_down world_hit ''Seattle''))
          (forwardURL env_get_down ''Seattle'')) = Return (Inr ''{features}'') \<and>
   responded (forwardSearch env_get_down world_hit req_forward ''Seattle'') StatusOK ''{features}'' \<and>
   http_log (snd (forwardSearch env_get_down world_hit req_forward ''Seattle'')) =
     http_log world_hit @ [outbound (forwardURL env_get_down ''Seattle'')] \<and>
   fst (search env_get_down (snd (getCached env_get_down world_hit (''47.6'' @ ''-122.3'')))
          (reverseURL env_get_down ''47.6'' ''-122.3'')) = Return (Inr ''{features}'') \<and>
   responded (reverseSearch env_get_down world_hit req_reverse ''47.6'' ''-122.3'') StatusOK
     ''{features}'' \<and>
   http_log (snd (reverseSearch env_get_down world_hit req_reverse ''47.6'' ''-122.3'')) =
     http_log world_hit @ [outbound (reverseURL env_get_down ''47.6'' ''-122.3'')]"
proof -
  have down: "redis_get_fault env_get_down = Some ''dial tcp: connection refused''"
    by (simp add: respond_simps base_defs env_get_down_def world_hit_def)
  have present: "redis_data world_hit ''Seattle'' \<noteq> None"
    by (simp add: respond_simps base_defs env_get_down_def world_hit_def)
  have parses: "url_parses env_get_down (forwardURL env_get_down ''Seattle'') \<and>
      url_parses env_get_down (reverseURL env_get_down ''47.6'' ''-122.3'')"
    by (simp add: respond_simps base_defs env_get_down_def world_hit_def)
  have okF: "fst (search env_get_down (snd (getCached env_get_down world_hit ''Seattle''))
          (forwardURL env_get_down ''Seattle'')) = Return (Inr ''{features}'')"
    by (simp add: respond_simps search_eq base_defs env_get_down_def world_hit_def)
  have okR: "fst (search env_get_down (snd (getCached env_get_down world_hit (''47.6'' @ ''-122.3'')))
          (reverseURL env_get_down ''47.6'' ''-122.3'')) = Return (Inr ''{features}'')"
    by (simp add: respond_simps search_eq base_defs env_get_down_def world_hit_def)
  show ?thesis
    using down present parses okF okR
      cache_read_failure_degrades_to_miss
        [OF down, where w = world_hit and key = "''Seattle''" and query = "''Seattle''"
           and req = req_forward and B = "''{features}''" and lat = "''47.6''" and lon = "''-122.3''"]
      cache_read_failure_degrades_to_miss
        [OF down, where w = world_hit and key = "''Seattle''" and query = "''Seattle''"
           and req = req_reverse and B = "''{features}''" and lat = "''47.6''" and lon = "''-122.3''"]
    by blast
qed

subsection \<open>A failed cache write\<close>

text \<open>
  C8: when the upstream call succeeds with body B and the Redis set fails, the answer is
  still 200 with B, the same result as in the run where the set succeeds; nothing is
  stored.
\<close>

theorem cache_write_failure_is_swallowed:
  assumes "redis_set_fault e = Some fault"
  shows "(fst (getCached e w query) = [] \<and>
          fst (search e (snd (getCached e w query)) (forwardURL e query)) = Return (Inr B) \<longrightarrow>
            responded (forwardSearch e w req query) StatusOK B \<and>
            fst (forwardSearch e w req query) =
              fst (forwardSearch (e\<lparr>redis_set_fault := None\<rparr>) w req query) \<and>
            redis_data (snd (forwardSearch e w req query)) = redis_data w) \<and>
         (fst (getCached e w (lat @ lon)) = [] \<and>
          fst (search e (snd (getCached e w (lat @ lon))) (reverseURL e lat lon)) = Return (Inr B) \<longrightarrow>
            responded (reverseSearch e w req lat lon) StatusOK B \<and>
            fst (reverseSearch e w req lat lon) =
              fst (reverseSearch (e\<lparr>redis_set_fault := None\<rparr>) w req lat lon) \<and>
            redis_data (snd (reverseSearch e w req lat lon)) = redis_data w)"
proof (intro conjI impI)
  assume h: "fst (getCached e w query) = [] \<and>
          fst (search e (snd (getCached e w query)) (forwardURL e query)) = Return (Inr B)"
  have run: "forwardSearch e w req query =
           respond (setCache e (w\<lparr>redis_log := redis_log w @ [GET query],
                                  http_log := http_log w @ [outbound (forwardURL e query)]\<rparr>)
                      query B)
                   req StatusOK B"
    using h by (intro forwardSearch_fetched) (simp_all add: respond_simps)
  show "responded (forwardSearch e w req query) StatusOK B"
    by (simp add: respond_simps run)
  show "redis_data (snd (forwardSearch e w req query)) = redis_data w"
    using assms by (simp add: respond_simps run setCache_dropped)
  have "fst (getCached (e\<lparr>redis_set_fault := None\<rparr>) w query) = []"
    using h by (simp add: respond_simps fst_getCached_set_fault)
  then show "fst (forwardSearch e w req query) =
      fst (forwardSearch (e\<lparr>redis_set_fault := None\<rparr>) w req query)"
    using h miss_runs_agree_forward [of e w query "e\<lparr>redis_set_fault := None\<rparr>" w req]
    by (simp add: respond_simps)
next
  assume h: "fst (getCached e w (lat @ lon)) = [] \<and>
          fst (search e (snd (getCached e w (lat @ lon))) (reverseURL e lat lon)) = Return (Inr B)"
  have run: "reverseSearch e w req lat lon =
           respond (setCache e (w\<lparr>redis_log := redis_log w @ [GET (lat @ lon)],
                                  http_log := http_log w @ [outbound (reverseURL e lat lon)]\<rparr>)
                      (lat @ lon) B)
                   req StatusOK B"
    using h by (intro reverseSearch_fetched) (simp_all add: respond_simps)
  show "responded (reverseSearch e w req lat lon) StatusOK B"
    by (simp add: respond_simps run)
  show "redis_data (snd (reverseSearch e w req lat lon)) = redis_data w"
    using assms by (simp add: respond_simps run setCache_dropped)
  have "fst (getCached (e\<lparr>redis_set_fault := None\<rparr>) w (lat @ lon)) = []"
    using h by (simp add: respond_simps fst_getCached_set_fault)
  then show "fst (reverseSearch e w req lat lon) =
      fst (reverseSearch (e\<lparr>redis_set_fault := None\<rparr>) w req lat lon)"
    using h miss_runs_agree_reverse [of e w lat lon "e\<lparr>redis_set_fault := None\<rparr>" w req]
    by (simp add: respond_simps)
qed

theorem cache_write_failure_is_swallowed_witness:
  "redis_set_fault env_set_down = Some ''dial tcp: connection refused'' \<and>
   fst (getCached env_set_down world0 ''Seattle'') = [] \<and>
   fst (search env_set_down (snd (getCached env_set_down world0 ''Seattle''))
          (forwardURL env_set_down ''Seattle'')) = Return (Inr ''{features}'') \<and>
   responded (forwardSearch env_set_down world0 req_forward ''Seattle'') StatusOK ''{features}'' \<and>
   redis_data (snd (forwardSearch env_set_down world0 req_forward ''Seattle'')) =
     redis_data world0 \<and>
   fst (getCached env_set_down world0 (''47.6'' @ ''-122.3'')) = [] \<and>
   fst (search env_set_down (snd (getCached env_set_down world0 (''47.6'' @ ''-122.3'')))
          (reverseURL env_set_down ''47.6'' ''-122.3'')) = Return (Inr ''{features}'') \<and>
   responded (reverseSearch env_set_down world0 req_reverse ''47.6'' ''-122.3'') StatusOK
     ''{features}'' \<and>
   redis_data (snd (reverseSearch env_set_down world0 req_reverse ''47.6'' ''-122.3'')) =
     redis_data world0"
proof -
  have down: "redis_set_fault env_set_down = Some ''dial tcp: connection refused''"
    by (simp add: respond_simps base_defs env_set_down_def)
  have missF: "fst (getCached env_set_down world0 ''Seattle'') = [] \<and>
      fst (search env_set_down (snd (getCached env_set_down world0 ''Seattle''))
            (forwardURL env_set_down ''Seattle'')) = Return (Inr ''{features}'')"
    by (simp add: respond_simps getCached_eq search_eq base_defs env_set_down_def redis_lookup_def)
  have missR: "fst (getCached env_set_down world0 (''47.6'' @ ''-122.3'')) = [] \<and>
      fst (search env_set_down (snd (getCached env_set_down world0 (''47.6'' @ ''-122.3'')))
            (reverseURL env_set_down ''47.6'' ''-122.3'')) = Return (Inr ''{features}'')"
    by (simp add: respond_simps getCached_eq search_eq base_defs env_set_down_def redis_lookup_def)
  show ?thesis
    using down missF missR
      cache_write_failure_is_swallowed
        [OF down, where w = world0 and query = "''Seattle''" and req = req_forward
           and B = "''{features}''" and lat = "''47.6''" and lon = "''-122.3''"]
      cache_write_failure_is_swallowed
        [OF down, where w = world0 and query = "''Seattle''" and req = req_reverse
           and B = "''{features}''" and lat = "''47.6''" and lon = "''-122.3''"]
    by blast
qed

subsection \<open>A cached empty string\<close>

text \<open>
  C10: when the read succeeds and the derived key is stored with the empty string, the
  search does what it does on a miss: its result, its upstream requests and its Redis
  commands equal those of the run with the key absent. The upstream is called (exactly
  once, whenever the request URL can be built); when it succeeds with body B the answer
  is 200 with B, and when it fails the answer is 500 with the error text.
\<close>

theorem empty_cached_value_is_a_miss:
  assumes "redis_get_fault e = None"
  shows "(redis_lookup e w query = Some [] \<longrightarrow>
            fst (forwardSearch e w req query) =
              fst (forwardSearch e (w\<lparr>redis_data := (redis_data w)(query := None)\<rparr>) req query) \<and>
            http_log (snd (forwardSearch e w req query)) =
              http_log (snd (forwardSearch e (w\<lparr>redis_data := (redis_data w)(query := None)\<rparr>)
                               req query)) \<and>
            redis_log (snd (forwardSearch e w req query)) =
              redis_log (snd (forwardSearch e (w\<lparr>redis_data := (redis_data w)(query := None)\<rparr>)
                                req query)) \<and>
            (url_parses e (forwardURL e query) \<longrightarrow>
               http_log (snd (forwardSearch e w req query)) =
                 http_log w @ [outbound (forwardURL e query)]) \<and>
            (fst (search e (snd (getCached e w query)) (forwardURL e query)) = Return (Inr B) \<longrightarrow>
               responded (forwardSearch e w req query) StatusOK B) \<and>
            (fst (search e (snd (getCached e w query)) (forwardURL e query)) = Return (Inl err) \<longrightarrow>
               responded (forwardSearch e w req query) StatusInternalServerError err)) \<and>
         (redis_lookup e w (lat @ lon) = Some [] \<longrightarrow>
            fst (reverseSearch e w req lat lon) =
              fst (reverseSearch e (w\<lparr>redis_data := (redis_data w)(lat @ lon := None)\<rparr>)
                     req lat lon) \<and>
            http_log (snd (reverseSearch e w req lat lon)) =
              http_log (snd (reverseSearch e (w\<lparr>redis_data := (redis_data w)(lat @ lon := None)\<rparr>)
                               req lat lon)) \<and>
            redis_log (snd (reverseSearch e w req lat lon)) =
              redis_log (snd (reverseSearch e (w\<lparr>redis_data := (redis_data w)(lat @ lon := None)\<rparr>)
                                req lat lon)) \<and>
            (url_parses e (reverseURL e lat lon) \<longrightarrow>
               http_log (snd (reverseSearch e w req lat lon)) =
                 http_log w @ [outbound (reverseURL e lat lon)]) \<and>
            (fst (search e (snd (getCached e w (lat @ lon))) (reverseURL e lat lon)) =
               Return (Inr B) \<longrightarrow>
               responded (reverseSearch e w req lat lon) StatusOK B) \<and>
            (fst (search e (snd (getCached e w (lat @ lon))) (reverseURL e lat lon)) =
               Return (Inl err) \<longrightarrow>
               responded (reverseSearch e w req lat lon) StatusInternalServerError err))"
proof -
  have miss0: "fst (getCached e (w\<lparr>redis_data := (redis_data w)(k := None)\<rparr>) k) = []" for k
    using assms by (rule fst_getCached_deleted)
  have F: "fst (forwardSearch e w req query) =
              fst (forwardSearch e (w\<lparr>redis_data := (redis_data w)(query := None)\<rparr>) req query) \<and>
            http_log (snd (forwardSearch e w req query)) =
              http_log (snd (forwardSearch e (w\<lparr>redis_data := (redis_data w)(query := None)\<rparr>)
                               req query)) \<and>
            redis_log (snd (forwardSearch e w req query)) =
              redis_log (snd (forwardSearch e (w\<lparr>redis_data := (redis_data w)(query := None)\<rparr>)
                                req query)) \<and>
            (url_parses e (forwardURL e query) \<longrightarrow>
               http_log (snd (forwardSearch e w req query)) =
                 http_log w @ [outbound (forwardURL e query)]) \<and>
            (fst (search e (snd (getCached e w query)) (forwardURL e query)) = Return (Inr B) \<longrightarrow>
               responded (forwardSearch e w req query) StatusOK B) \<and>
            (fst (search e (snd (getCached e w query)) (forwardURL e query)) = Return (Inl err) \<longrightarrow>
               responded (forwardSearch e w req query) StatusInternalServerError err)"
    if blank: "redis_lookup e w query = Some []"
  proof -
    have miss: "fst (getCached e w query) = []"
      using assms blank by (rule fst_getCached_blank)
    have agree: "fst (forwardSearch e w req query) =
              fst (forwardSearch e (w\<lparr>redis_data := (redis_data w)(query := None)\<rparr>) req query) \<and>
            http_log (snd (forwardSearch e w req query)) =
              http_log (snd (forwardSearch e (w\<lparr>redis_data := (redis_data w)(query := None)\<rparr>)
                               req query)) \<and>
            redis_log (snd (forwardSearch e w req query)) =
              redis_log (snd (forwardSearch e (w\<lparr>redis_data := (redis_data w)(query := None)\<rparr>)
                                req query))"
      using miss_runs_agree_forward [OF miss0 miss, of req] by (simp add: respond_simps)
    have called: "http_log (snd (forwardSearch e w req query)) =
                 http_log w @ [outbound (forwardURL e query)]"
      if "url_parses e (forwardURL e query)"
      using miss that by (rule forwardSearch_miss_calls)
    have ok: "responded (forwardSearch e w req query) StatusOK B"
      if "fst (search e (snd (getCached e w query)) (forwardURL e query)) = Return (Inr B)"
      using forwardSearch_fetched [OF miss that, of req] by (simp add: respond_simps)
    have bad: "responded (forwardSearch e w req query) StatusInternalServerError err"
      if "fst (search e (snd (getCached e w query)) (forwardURL e query)) = Return (Inl err)"
      using forwardSearch_failed [OF miss that, of req] by (simp add: respond_simps)
    show ?thesis
      using agree called ok bad by blast
  qed
  have R: "fst (reverseSearch e w req lat lon) =
              fst (reverseSearch e (w\<lparr>redis_data := (redis_data w)(lat @ lon := None)\<rparr>)
                     req lat lon) \<and>
            http_log (snd (reverseSearch e w req lat lon)) =
              http_log (snd (reverseSearch e (w\<lparr>redis_data := (redis_data w)(lat @ lon := None)\<rparr>)
                               req lat lon)) \<and>
            redis_log (snd (reverseSearch e w req lat lon)) =
              redis_log (snd (reverseSearch e (w\<lparr>redis_data := (redis_data w)(lat @ lon := None)\<rparr>)
                                req lat lon)) \<and>
            (url_parses e (reverseURL e lat lon) \<longrightarrow>
               http_log (snd (reverseSearch e w req lat lon)) =
                 http_log w @ [outbound (reverseURL e lat lon)]) \<and>
            (fst (search e (snd (getCached e w (lat @ lon))) (reverseURL e lat lon)) =
               Return (Inr B) \<longrightarrow>
               responded (reverseSearch e w req lat lon) StatusOK B) \<and>
            (fst (search e (snd (getCached e w (lat @ lon))) (reverseURL e lat lon)) =
               Return (Inl err) \<longrightarrow>
               responded (reverseSearch e w req lat lon) StatusInternalServerError err)"
    if blank: "redis_lookup e w (lat @ lon) = Some []"
  proof -
    have miss: "fst (getCached e w (lat @ lon)) = []"
      using assms blank by (rule fst_getCached_blank)
    have agree: "fst (reverseSearch e w req lat lon) =
              fst (reverseSearch e (w\<lparr>redis_data := (redis_data w)(lat @ lon := None)\<rparr>)
                     req lat lon) \<and>
            http_log (snd (reverseSearch e w req lat lon)) =
              http_log (snd (reverseSearch e (w\<lparr>redis_data := (redis_data w)(lat @ lon := None)\<rparr>)
                               req lat lon)) \<and>
            redis_log (snd (reverseSearch e w req lat lon)) =
              redis_log (snd (reverseSearch e (w\<lparr>redis_data := (redis_data w)(lat @ lon := None)\<rparr>)
                                req lat lon))"
      using miss_runs_agree_reverse [OF miss0 miss, of req] by (simp add: respond_simps)
    have called: "http_log (snd (reverseSearch e w req lat lon)) =
                 http_log w @ [outbound (reverseURL e lat lon)]"
      if "url_parses e (reverseURL e lat lon)"
      using miss that by (rule reverseSearch_miss_calls)
    have ok: "responded (reverseSearch e w req lat lon) StatusOK B"
      if "fst (search e (snd (getCached e w (lat @ lon))) (reverseURL e lat lon)) = Return (Inr B)"
      using reverseSearch_fetched [OF miss that, of req] by (simp add: respond_simps)
    have bad: "responded (reverseSearch e w req lat lon) StatusInternalServerError err"
      if "fst (search e (snd (getCached e w (lat @ lon))) (reverseURL e lat lon)) = Return (Inl err)"
      using reverseSearch_failed [OF miss that, of req] by (simp add: respond_simps)
    show ?thesis
      using agree called ok bad by blast
  qed
  show ?thesis
    using F R by blast
qed

theorem empty_cached_value_is_a_miss_witness:
  "redis_get_fault env_ok = None \<and>
   redis_lookup env_ok world_blank ''Seattle'' = Some [] \<and>
   url_parses env_ok (forwardURL env_ok ''Seattle'') \<and>
   url_parses env_ok (reverseURL env_ok ''47.6'' ''-122.3'') \<and>
   http_log (snd (reverseSearch env_ok world_blank req_reverse ''47.6'' ''-122.3'')) =
     http_log world_blank @ [outbound (reverseURL env_ok ''47.6'' ''-122.3'')] \<and>
   fst (search env_ok (snd (getCached env_ok world_blank ''Seattle'')) (forwardURL env_ok ''Seattle'')) =
     Return (Inr ''{features}'') \<and>
   responded (forwardSearch env_ok world_blank req_forward ''Seattle'') StatusOK ''{features}'' \<and>
   http_log (snd (forwardSearch env_ok world_blank req_forward ''Seattle'')) =
     http_log world_blank @ [outbound (forwardURL env_ok ''Seattle'')] \<and>
   redis_get_fault env_503 = None \<and>
   redis_lookup env_503 world_blank (''47.6'' @ ''-122.3'') = Some [] \<and>
   fst (search env_503 (snd (getCached env_503 world_blank (''47.6'' @ ''-122.3'')))
          (reverseURL env_503 ''47.6'' ''-122.3'')) =
     Return (Inl ''received unexpected status code 503'') \<and>
   responded (reverseSearch env_503 world_blank req_reverse ''47.6'' ''-122.3'')
     StatusInternalServerError ''received unexpected status code 503'' \<and>
   redis_lookup env_ok world_blank (''47.6'' @ ''-122.3'') = Some [] \<and>
   fst (search env_ok (snd (getCached env_ok world_blank (''47.6'' @ ''-122.3'')))
          (reverseURL env_ok ''47.6'' ''-122.3'')) = Return (Inr ''{features}'') \<and>
   responded (reverseSearch env_ok world_blank req_reverse ''47.6'' ''-122.3'') StatusOK
     ''{features}'' \<and>
   redis_lookup env_503 world_blank ''Seattle'' = Some [] \<and>
   fst (search env_503 (snd (getCached env_503 world_blank ''Seattle''))
          (forwardURL env_503 ''Seattle'')) = Return (Inl ''received unexpected status code 503'') \<and>
   responded (forwardSearch env_503 world_blank req_forward ''Seattle'')
     StatusInternalServerError ''received unexpected status code 503''"
proof -
  have up: "redis_get_fault env_ok = None" and up': "redis_get_fault env_503 = None"
    by (simp_all add: respond_simps base_defs env_503_def mapbox_503_def world_blank_def)
  have blank: "redis_lookup env_ok world_blank ''Seattle'' = Some [] \<and>
      redis_lookup env_ok world_blank (''47.6'' @ ''-122.3'') = Some [] \<and>
      redis_lookup env_503 world_blank ''Seattle'' = Some [] \<and>
      redis_lookup env_503 world_blank (''47.6'' @ ''-122.3'') = Some []"
    by (simp add: respond_simps base_defs env_503_def mapbox_503_def world_blank_def redis_lookup_def)
  have parses: "url_parses env_ok (forwardURL env_ok ''Seattle'') \<and>
      url_parses env_ok (reverseURL env_ok ''47.6'' ''-122.3'')"
    by (simp add: respond_simps base_defs env_503_def mapbox_503_def world_blank_def)
  have ok: "fst (search env_ok (snd (getCached env_ok world_blank ''Seattle''))
                (forwardURL env_ok ''Seattle'')) = Return (Inr ''{features}'') \<and>
      fst (search env_ok (snd (getCached env_ok world_blank (''47.6'' @ ''-122.3'')))
            (reverseURL env_ok ''47.6'' ''-122.3'')) = Return (Inr ''{features}'')"
    by (simp add: respond_simps search_eq base_defs env_503_def mapbox_503_def world_blank_def)
  have bad: "fst (search env_503 (snd (getCached env_503 world_blank ''Seattle''))
                (forwardURL env_503 ''Seattle'')) =
              Return (Inl ''received unexpected status code 503'') \<and>
      fst (search env_503 (snd (getCached env_503 world_blank (''47.6'' @ ''-122.3'')))
            (reverseURL env_503 ''47.6'' ''-122.3'')) =
        Return (Inl ''received unexpected status code 503'')"
    by (simp add: respond_simps search_eq base_defs env_503_def mapbox_503_def world_blank_def fmt_d_503)
  have F1: "responded (forwardSearch env_ok world_blank req_forward ''Seattle'') StatusOK
        ''{features}'' \<and>
      http_log (snd (forwardSearch env_ok world_blank req_forward ''Seattle'')) =
        http_log world_blank @ [outbound (forwardURL env_ok ''Seattle'')]"
    using blank parses ok
      empty_cached_value_is_a_miss
        [OF up, where w = world_blank and query = "''Seattle''" and req = req_forward
           and B = "''{features}''" and lat = "''47.6''" and lon = "''-122.3''"]
    by blast
  have R1: "responded (reverseSearch env_ok world_blank req_reverse ''47.6'' ''-122.3'') StatusOK
        ''{features}'' \<and>
      http_log (snd (reverseSearch env_ok world_blank req_reverse ''47.6'' ''-122.3'')) =
        http_log world_blank @ [outbound (reverseURL env_ok ''47.6'' ''-122.3'')]"
    using blank parses ok
      empty_cached_value_is_a_miss
        [OF up, where w = world_blank and query = "''Seattle''" and req = req_reverse
           and B = "''{features}''" and lat = "''47.6''" and lon = "''-122.3''"]
    by blast
  have F2: "responded (forwardSearch env_503 world_blank req_forward ''Seattle'')
        StatusInternalServerError ''received unexpected status code 503''"
    using blank bad
      empty_cached_value_is_a_miss
        [OF up', where w = world_blank and query = "''Seattle''" and req = req_forward
           and err = "''received unexpected status code 503''" and lat = "''47.6''"
           and lon = "''-122.3''"]
    by blast
  have R2: "responded (reverseSearch env_503 world_blank req_reverse ''47.6'' ''-122.3'')
        StatusInternalServerError ''received unexpected status code 503''"
    using blank bad
      empty_cached_value_is_a_miss
        [OF up', where w = world_blank and query = "''Seattle''" and req = req_reverse
           and err = "''received unexpected status code 503''" and lat = "''47.6''"
           and lon = "''-122.3''"]
    by blast
  show ?thesis
    using up up' blank parses ok bad F1 R1 F2 R2 by blast
qed

section \<open>Properties of the encryption utility\<close>

subsection \<open>Base64 decodes what it encodes\<close>

lemma index_of_nth: "distinct xs \<Longrightarrow> i < length xs \<Longrightarrow> index_of (xs ! i) xs = Some i"
proof (induction xs arbitrary: i)
  case Nil
  then show ?case by simp
next
  case (Cons x xs)
  show ?case
  proof (cases i)
    case 0
    then show ?thesis by simp
  next
    case (Suc j)
    then have "xs ! j \<in> set xs" and "index_of (xs ! j) xs = Some j"
      using Cons by auto
    then show ?thesis
      using Cons.prems Suc by auto
  qed
qed

lemma distinct_encodeURL: "distinct encodeURL"
  by (simp add: encodeURL_def)

lemma length_encodeURL: "length encodeURL = 64"
  by (simp add: encodeURL_def)

lemma no_newline_encodeURL: "CHR 0x0A \<notin> set encodeURL \<and> CHR 0x0D \<notin> set encodeURL"
  by (simp add: encodeURL_def)

lemma decodeMap_encode:
  "\<forall>v \<in> set vs. v < 64 \<Longrightarrow> decodeMap (map (\<lambda>v. encodeURL ! v) vs) = Some vs"
  by (induction vs) (simp_all add: index_of_nth distinct_encodeURL length_encodeURL)

lemma filter_encode:
  "\<forall>v \<in> set vs. v < 64 \<Longrightarrow>
     filter (\<lambda>c. c \<noteq> CHR 0x0A \<and> c \<noteq> CHR 0x0D) (map (\<lambda>v. encodeURL ! v) vs) =
       map (\<lambda>v. encodeURL ! v) vs"
proof (induction vs)
  case Nil
  then show ?case by simp
next
  case (Cons v vs)
  then have "encodeURL ! v \<in> set encodeURL"
    by (simp add: length_encodeURL)
  then have "encodeURL ! v \<noteq> CHR 0x0A \<and> encodeURL ! v \<noteq> CHR 0x0D"
    using no_newline_encodeURL by metis
  then show ?case
    using Cons by simp
qed

lemma unat_byte: "unat (a :: byte) < 256"
  using unsigned_less [of a, where ?'a = nat] by simp

lemma encode_quanta_sextets: "\<forall>v \<in> set (encode_quanta src). v < 64"
proof (induction src rule: encode_quanta.induct)
  case (1 a b c rest)
  have "unat a * 65536 + unat b * 256 + unat c < 16777216"
    using unat_byte [of a] unat_byte [of b] unat_byte [of c] by linarith
  then have "(unat a * 65536 + unat b * 256 + unat c) div 262144 < 64"
    by linarith
  then show ?case
    using 1 by (simp add: Let_def)
next
  case (2 a b)
  have "unat a * 65536 + unat b * 256 < 16777216"
    using unat_byte [of a] unat_byte [of b] by linarith
  then have "(unat a * 65536 + unat b * 256) div 262144 < 64"
    by linarith
  then show ?case
    by (simp add: Let_def)
next
  case (3 a)
  have "unat a * 65536 div 262144 < 64"
    using unat_byte [of a] by linarith
  then show ?case
    by (simp add: Let_def)
next
  case 4
  then show ?case by simp
qed

lemma pack_sextets:
  "p * 262144 + q * 4096 + r * 64 + s = ((p * 64 + q) * 64 + r) * 64 + (s :: nat)"
  by (simp add: algebra_simps)

lemma sextets_value:
  "(v div 262144) * 262144 + (v div 4096 mod 64) * 4096 + (v div 64 mod 64) * 64 + v mod 64 = (v :: nat)"
proof -
  define v1 where "v1 = v div 64"
  define v2 where "v2 = v1 div 64"
  have d1: "v div 4096 = v2"
    unfolding v2_def v1_def by (simp add: div_mult2_eq)
  have d2: "v div 262144 = v2 div 64"
    unfolding v2_def v1_def by (simp add: div_mult2_eq)
  have 1: "v1 * 64 + v mod 64 = v"
    unfolding v1_def by simp
  have 2: "v2 * 64 + v1 mod 64 = v1"
    unfolding v2_def by simp
  have 3: "v2 div 64 * 64 + v2 mod 64 = v2"
    by simp
  have "v2 div 64 * 262144 + v2 mod 64 * 4096 + v1 mod 64 * 64 + v mod 64 =
        ((v2 div 64 * 64 + v2 mod 64) * 64 + v1 mod 64) * 64 + v mod 64"
    by (rule pack_sextets)
  also have "\<dots> = v"
    unfolding 3 2 1 ..
  finally show ?thesis
    unfolding d1 d2 v1_def .
qed

lemma byte_of_nat: "n mod 256 = unat b \<Longrightarrow> (of_nat n :: byte) = b"
proof -
  assume *: "n mod 256 = unat b"
  have "(of_nat n :: byte) = of_nat (n mod 256)"
    by (simp add: word_of_nat_eq_iff take_bit_eq_mod)
  then show ?thesis
    unfolding * by simp
qed

lemma quantum3:
  fixes a b c :: byte
  defines "val \<equiv> unat a * 65536 + unat b * 256 + unat c"
  shows "(of_nat (val div 65536) :: byte) = a"
    and "(of_nat (val div 256) :: byte) = b"
    and "(of_nat val :: byte) = c"
proof -
  have "val div 65536 = unat a"
    unfolding val_def using unat_byte [of b] unat_byte [of c] by linarith
  then show "(of_nat (val div 65536) :: byte) = a"
    by simp
  have "val div 256 = unat a * 256 + unat b"
    unfolding val_def using unat_byte [of c] by linarith
  then have "val div 256 mod 256 = unat b"
    using unat_byte [of b] by simp
  then show "(of_nat (val div 256) :: byte) = b"
    by (rule byte_of_nat)
  have "val = (unat a * 256 + unat b) * 256 + unat c"
    unfolding val_def by simp
  then have "val mod 256 = unat c mod 256"
    by (simp only: mod_mult_self3)
  then have "val mod 256 = unat c"
    using unat_byte [of c] by simp
  then show "(of_nat val :: byte) = c"
    by (rule byte_of_nat)
qed

lemma quantum2:
  fixes a b :: byte
  defines "val \<equiv> unat a * 65536 + unat b * 256"
  shows "(of_nat (val div 65536) :: byte) = a"
    and "(of_nat (val div 256) :: byte) = b"
    and "val mod 64 = 0"
proof -
  have "val div 65536 = unat a"
    unfolding val_def using unat_byte [of b] by linarith
  then show "(of_nat (val div 65536) :: byte) = a"
    by simp
  have "val div 256 = unat a * 256 + unat b"
    unfolding val_def by linarith
  then have "val div 256 mod 256 = unat b"
    using unat_byte [of b] by simp
  then show "(of_nat (val div 256) :: byte) = b"
    by (rule byte_of_nat)
  have "val = (unat a * 1024 + unat b * 4) * 64"
    unfolding val_def by simp
  then show "val mod 64 = 0"
    by simp
qed

lemma quantum1:
  fixes a :: byte
  defines "val \<equiv> unat a * 65536"
  shows "(of_nat (val div 65536) :: byte) = a"
    and "val mod 64 = 0" and "val div 64 mod 64 = 0"
proof -
  show "(of_nat (val div 65536) :: byte) = a"
    unfolding val_def by simp
  have "val = (unat a * 1024) * 64"
    unfolding val_def by simp
  then show "val mod 64 = 0"
    by simp
  have "val div 64 = (unat a * 16) * 64"
    unfolding val_def by simp
  then show "val div 64 mod 64 = 0"
    by simp
qed

lemma decode_encode_quanta: "decode_quanta (encode_quanta src) = Some src"
proof (induction src rule: encode_quanta.induct)
  case (1 a b c rest)
  define val where "val = unat a * 65536 + unat b * 256 + unat c"
  have v: "val div 262144 * 262144 + val div 4096 mod 64 * 4096 + val div 64 mod 64 * 64 +
             val mod 64 = val"
    by (rule sextets_value)
  have "of_nat (val div 65536) = a" "of_nat (val div 256) = b" "of_nat val = c"
    unfolding val_def by (rule quantum3)+
  then show ?case
    using 1 by (simp add: Let_def val_def [symmetric] v)
next
  case (2 a b)
  define val where "val = unat a * 65536 + unat b * 256"
  have "val mod 64 = 0"
    unfolding val_def by (rule quantum2)
  then have v: "val div 262144 * 262144 + val div 4096 mod 64 * 4096 + val div 64 mod 64 * 64 = val"
    using sextets_value [of val] by simp
  have "of_nat (val div 65536) = a" "of_nat (val div 256) = b"
    unfolding val_def by (rule quantum2)+
  then show ?case
    by (simp add: Let_def val_def [symmetric] v)
next
  case (3 a)
  define val where "val = unat a * 65536"
  have "val mod 64 = 0" "val div 64 mod 64 = 0"
    unfolding val_def by (rule quantum1)+
  then have v: "val div 262144 * 262144 + val div 4096 mod 64 * 4096 = val"
    using sextets_value [of val] by simp
  have "of_nat (val div 65536) = a"
    unfolding val_def by (rule quantum1)
  then show ?case
    by (simp add: Let_def val_def [symmetric] v)
next
  case 4
  then show ?case by simp
qed

lemma first_illegal_encode:
  "\<forall>v \<in> set vs. v < 64 \<Longrightarrow> first_illegal (map (\<lambda>v. encodeURL ! v) vs) = None"
  by (induction vs) (simp_all add: index_of_nth distinct_encodeURL length_encodeURL)

lemma DecodeString_EncodeToString: "DecodeString (EncodeToString src) = Inr src"
  by (simp add: DecodeString_def EncodeToString_def first_illegal_encode filter_encode
      decodeMap_encode encode_quanta_sextets decode_encode_quanta)

subsection \<open>The buffer layout\<close>

lemma io_ReadFull_length: "io_ReadFull rd n = Inr bs \<Longrightarrow> length bs = n"
  by (auto simp add: io_ReadFull_def split: sum.splits if_splits)

lemma Encrypt_layout:
  assumes key: "length key = 16 \<or> length key = 24 \<or> length key = 32"
    and rnd: "io_ReadFull (rand_Reader C) 12 = Inr nonce"
    and len: "length (aes_gcm_seal C key nonce plaintext) = length plaintext + 16"
  shows "Encrypt C plaintext key =
           Return (Inr (EncodeToString (nonce @ aes_gcm_seal C key nonce plaintext)))"
proof -
  have n: "length nonce = 12"
    using rnd by (rule io_ReadFull_length)
  have out1: "write_at (replicate (28 + length plaintext) 0) 0 nonce =
      nonce @ replicate (length plaintext + 16) 0"
    by (simp add: write_at_def n)
  have seal: "gcm_Seal C \<lparr>gcm_key = key, nonceSize = 12, tagSize = 16\<rparr>
                (nonce @ replicate (length plaintext + 16) 0) 12 nonce plaintext =
              Return (nonce @ aes_gcm_seal C key nonce plaintext,
                      nonce @ aes_gcm_seal C key nonce plaintext)"
    by (simp add: gcm_Seal_def write_at_def n len Let_def)
  show ?thesis
    using key rnd
    by (simp add: Encrypt_def aes_NewCipher_def cipher_NewGCM_def Let_def out1 n seal)
qed

lemma Decrypt_layout:
  assumes key: "length key = 16 \<or> length key = 24 \<or> length key = 32"
    and n: "length nonce = 12"
    and len: "16 \<le> length sealed"
  shows "Decrypt C (EncodeToString (nonce @ sealed)) key =
           (case aes_gcm_open C key nonce sealed of
              None \<Rightarrow> Return (Inl ''cipher: message authentication failed'')
            | Some plaintext \<Rightarrow> Return (Inr plaintext))"
  using key n len
  by (simp add: Decrypt_def DecodeString_EncodeToString aes_NewCipher_def cipher_NewGCM_def
      gcm_Open_def)

lemmas toy_defs = toy_rand_def toy_seal_def toy_open_def toy_crypto_def toy_key_def toy_nonce_def
  toy_plaintext_def


lemma toy_ciphertext:
  "Encrypt toy_crypto toy_plaintext toy_key =
     Return (Inr ''BwcHBwcHBwcHBwcHaWoJCQkJCQkJCQkJCQkJCQkJ'')"
  by (simp add: toy_defs Encrypt_def aes_NewCipher_def cipher_NewGCM_def io_ReadFull_def
      gcm_Seal_def write_at_def EncodeToString_def encodeURL_def Let_def)

subsection \<open>Round trip\<close>

text \<open>
  C9: for a key of 16, 24 or 32 bytes and any plaintext, when the nonce is read and AES-GCM
  with that key and nonce opens what it seals (the sealed text being 16 bytes longer than
  the plaintext), \<open>Encrypt\<close> returns the base64 text of nonce, ciphertext and tag in one
  buffer, and \<open>Decrypt\<close> of that text with the same key returns the plaintext.
\<close>

theorem decrypt_encrypt_roundtrip:
  assumes "length key = 16 \<or> length key = 24 \<or> length key = 32"
    and "io_ReadFull (rand_Reader C) 12 = Inr nonce"
    and "length (aes_gcm_seal C key nonce plaintext) = length plaintext + 16"
    and "aes_gcm_open C key nonce (aes_gcm_seal C key nonce plaintext) = Some plaintext"
  shows "Encrypt C plaintext key =
           Return (Inr (EncodeToString (nonce @ aes_gcm_seal C key nonce plaintext))) \<and>
         Decrypt C (EncodeToString (nonce @ aes_gcm_seal C key nonce plaintext)) key =
           Return (Inr plaintext)"
proof -
  have n: "length nonce = 12"
    using assms(2) by (rule io_ReadFull_length)
  have "16 \<le> length (aes_gcm_seal C key nonce plaintext)"
    using assms(3) by simp
  then have "Decrypt C (EncodeToString (nonce @ aes_gcm_seal C key nonce plaintext)) key =
           Return (Inr plaintext)"
    using Decrypt_layout [OF assms(1) n, of "aes_gcm_seal C key nonce plaintext" C] assms(4)
    by simp
  then show ?thesis
    using Encrypt_layout [OF assms(1-3)] by simp
qed

theorem decrypt_encrypt_roundtrip_witness:
  "(length toy_key = 16 \<or> length toy_key = 24 \<or> length toy_key = 32) \<and>
   io_ReadFull (rand_Reader toy_crypto) 12 = Inr toy_nonce \<and>
   length (aes_gcm_seal toy_crypto toy_key toy_nonce toy_plaintext) = length toy_plaintext + 16 \<and>
   aes_gcm_open toy_crypto toy_key toy_nonce
     (aes_gcm_seal toy_crypto toy_key toy_nonce toy_plaintext) = Some toy_plaintext \<and>
   Encrypt toy_crypto toy_plaintext toy_key =
     Return (Inr (EncodeToString
                    (toy_nonce @ aes_gcm_seal toy_crypto toy_key toy_nonce toy_plaintext))) \<and>
   Decrypt toy_crypto
     (EncodeToString (toy_nonce @ aes_gcm_seal toy_crypto toy_key toy_nonce toy_plaintext))
     toy_key = Return (Inr toy_plaintext)"
proof -
  have pre: "(length toy_key = 16 \<or> length toy_key = 24 \<or> length toy_key = 32) \<and>
      io_ReadFull (rand_Reader toy_crypto) 12 = Inr toy_nonce \<and>
      length (aes_gcm_seal toy_crypto toy_key toy_nonce toy_plaintext) =
        length toy_plaintext + 16 \<and>
      aes_gcm_open toy_crypto toy_key toy_nonce
        (aes_gcm_seal toy_crypto toy_key toy_nonce toy_plaintext) = Some toy_plaintext"
    by (simp add: toy_defs io_ReadFull_def)
  then show ?thesis
    using decrypt_encrypt_roundtrip
      [where C = toy_crypto and key = toy_key and nonce = toy_nonce and plaintext = toy_plaintext]
    by blast
qed

end
